theory Spec2Isabelle
  imports Complex_Main "HOL-Library.AList"
begin

section \<open>Common Python notions\<close>

text \<open>
  Floating-point values are modelled by the reals: every arithmetic step of the source is
  taken without rounding error, and the IEEE values nan and inf do not exist (a division by
  zero, which numpy answers with nan or inf and a warning, is HOL's total division).
  Exceptions are values of the type \<open>error\<close>; a computation that may raise returns
  \<open>error + 'a\<close> with \<open>Inl\<close> for the exception.
\<close>

datatype error =
    ValueError string
  | FileNotFoundError string
  | KeyError
  | AttributeError
  | IndexError
  | TypeError
  | UnitConversionError

text \<open>Sequencing: the first exception ends the computation.\<close>

definition and_then :: "error + 'a \<Rightarrow> ('a \<Rightarrow> error + 'b) \<Rightarrow> error + 'b" where
  "and_then m f = (case m of Inl e \<Rightarrow> Inl e | Inr x \<Rightarrow> f x)"

lemma and_then_cong [fundef_cong]:
  "m = m' \<Longrightarrow> (\<And>x. m' = Inr x \<Longrightarrow> f x = f' x) \<Longrightarrow> and_then m f = and_then m' f'"
  by (cases m') (simp_all add: and_then_def)

text \<open>Python's \<open>x % m\<close> on numbers: the result has the sign of the divisor.\<close>

definition py_mod :: "real \<Rightarrow> real \<Rightarrow> real" where
  "py_mod x m = x - m * of_int \<lfloor>x / m\<rfloor>"

text \<open>
  Rounding to the nearest integer with ties to the even neighbour, which is what
  \<open>round(x, 3)\<close> and the format \<open>:.3f\<close> do with the thousandths of \<open>x\<close>.
\<close>

definition round_half_even :: "real \<Rightarrow> int" where
  "round_half_even x =
     (let f = \<lfloor>x\<rfloor>; d = x - of_int f
      in if d < 1 / 2 then f
         else if 1 / 2 < d then f + 1
         else if even f then f else f + 1)"

definition py_round3 :: "real \<Rightarrow> real" where
  "py_round3 x = of_int (round_half_even (x * 1000)) / 1000"

definition digit :: "nat \<Rightarrow> char" where
  "digit d = ''0123456789'' ! d"

function str_nat :: "nat \<Rightarrow> string" where
  "str_nat n = (if n < 10 then [digit n] else str_nat (n div 10) @ [digit (n mod 10)])"
  by pat_completeness auto
termination
  by (relation "measure id") auto

declare str_nat.simps [simp del]

text \<open>The format \<open>f'{x:.3f}'\<close>: sign, integer part, a dot and three decimals.\<close>

definition format_3f :: "real \<Rightarrow> string" where
  "format_3f x =
     (let n = nat (round_half_even (\<bar>x\<bar> * 1000)); m = n mod 1000
      in (if x < 0 then ''-'' else [])
         @ str_nat (n div 1000) @ ''.''
         @ [digit (m div 100), digit (m div 10 mod 10), digit (m mod 10)])"

text \<open>Indexing \<open>xs[i]\<close> with Python's negative indices; out of range raises IndexError.\<close>

definition py_index :: "'a list \<Rightarrow> int \<Rightarrow> error + 'a" where
  "py_index xs i =
     (let j = (if i < 0 then i + int (length xs) else i)
      in if j < 0 \<or> int (length xs) \<le> j then Inl IndexError else Inr (xs ! nat j))"

text \<open>
  \<open>slice(start, stop).indices(n)\<close> for two integers: negative bounds count from the end,
  both are clamped to \<open>[0, n]\<close>.
\<close>

definition clamp_index :: "nat \<Rightarrow> int \<Rightarrow> nat" where
  "clamp_index n i = nat (if i < 0 then max 0 (i + int n) else min i (int n))"

definition slice_len :: "nat \<Rightarrow> int \<times> int \<Rightarrow> nat" where
  "slice_len n se = clamp_index n (snd se) - clamp_index n (fst se)"

definition py_slice :: "'a list \<Rightarrow> int \<times> int \<Rightarrow> 'a list" where
  "py_slice xs se =
     take (slice_len (length xs) se) (drop (clamp_index (length xs) (fst se)) xs)"

section \<open>The flux-combination pipeline (SpectraBuilder.py)\<close>

subsection \<open>Tables\<close>

text \<open>
  A pandas DataFrame is an ordered list of named columns. Assigning a column
  (\<open>df[name] = col\<close>) replaces the column of that name where it stands, or appends a new
  one: this is \<open>AList.update\<close>. Reading a column that does not exist raises.
  The columns of one frame share the frame's index, so that arithmetic between two of them
  is elementwise.
\<close>

type_synonym series = "real list"
type_synonym dataframe = "(string \<times> series) list"

definition column :: "dataframe \<Rightarrow> string \<Rightarrow> error + series" where
  "column df name = (case map_of df name of None \<Rightarrow> Inl AttributeError | Some c \<Rightarrow> Inr c)"

definition set_column :: "dataframe \<Rightarrow> string \<Rightarrow> series \<Rightarrow> dataframe" where
  "set_column df name c = AList.update name c df"

definition series_scale :: "series \<Rightarrow> real \<Rightarrow> series" where
  "series_scale xs c = map (\<lambda>x. x * c) xs"

definition series_add :: "series \<Rightarrow> series \<Rightarrow> series" where
  "series_add xs ys = map2 (+) xs ys"

definition dict_get :: "(string \<rightharpoonup> real) \<Rightarrow> string \<Rightarrow> error + real" where
  "dict_get d k = (case d k of None \<Rightarrow> Inl KeyError | Some v \<Rightarrow> Inr v)"

subsection \<open>calculate_combined_spectrum\<close>

definition weighted_sum :: "series \<Rightarrow> real \<Rightarrow> series \<Rightarrow> real \<Rightarrow> series \<Rightarrow> real \<Rightarrow> series" where
  "weighted_sum photflux photFrac spotflux spotFrac facflux facFrac =
     series_add
       (series_add (series_scale photflux photFrac) (series_scale spotflux spotFrac))
       (series_scale facflux facFrac)"

definition calculate_combined_spectrum ::
  "dataframe \<Rightarrow> (string \<rightharpoonup> real) \<Rightarrow> (string \<rightharpoonup> real) \<Rightarrow> error + dataframe" where
  "calculate_combined_spectrum allModelSpectra percentagesDict percentagesDictTowardsPlanet =
     and_then (dict_get percentagesDict ''phot'') (\<lambda>photFrac.
     and_then (dict_get percentagesDict ''spot'') (\<lambda>spotFrac.
     and_then (dict_get percentagesDict ''fac'') (\<lambda>facFrac.
     and_then (column allModelSpectra ''photflux'') (\<lambda>photflux.
     and_then (column allModelSpectra ''spotflux'') (\<lambda>spotflux.
     and_then (column allModelSpectra ''facflux'') (\<lambda>facflux.
     let df1 = set_column allModelSpectra ''sumflux''
                 (weighted_sum photflux photFrac spotflux spotFrac facflux facFrac)
     in
     and_then (dict_get percentagesDictTowardsPlanet ''phot'') (\<lambda>photFracTowardsPlanet.
     and_then (dict_get percentagesDictTowardsPlanet ''spot'') (\<lambda>spotFracTowardsPlanet.
     and_then (dict_get percentagesDictTowardsPlanet ''fac'') (\<lambda>facFracTowardsPlanet.
     and_then (column df1 ''photflux'') (\<lambda>photflux1.
     and_then (column df1 ''spotflux'') (\<lambda>spotflux1.
     and_then (column df1 ''facflux'') (\<lambda>facflux1.
     Inr (set_column df1 ''sumfluxTowardsPlanet''
            (weighted_sum photflux1 photFracTowardsPlanet spotflux1 spotFracTowardsPlanet
               facflux1 facFracTowardsPlanet))))))))))))))"

subsection \<open>calculate_planet_flux\<close>

text \<open>
  The two tables of the external tool, as rows: the reflected spectrum has the columns
  wavelength, total, stellar, planet, the thermal one wavelength, total, planet.
  numpy and pandas raise ValueError when arrays of different lengths meet; the model raises
  it for every mismatch between the two tables and the working table (tables of a single
  row, which numpy would broadcast, are not told apart).
\<close>

type_synonym reflection_table = "(real \<times> real \<times> real \<times> real) list"
type_synonym thermal_table = "(real \<times> real \<times> real) list"

definition refl_stellar :: "reflection_table \<Rightarrow> series" where
  "refl_stellar t = map (\<lambda>(w, tot, st, pl). st) t"

definition refl_planet :: "reflection_table \<Rightarrow> series" where
  "refl_planet t = map (\<lambda>(w, tot, st, pl). pl) t"

definition thermal_planet :: "thermal_table \<Rightarrow> series" where
  "thermal_planet t = map (\<lambda>(w, tot, pl). pl) t"

definition calculate_planet_flux ::
  "dataframe \<Rightarrow> reflection_table \<Rightarrow> thermal_table \<Rightarrow> error + dataframe" where
  "calculate_planet_flux allModelSpectra PSGplanetReflectionModel planetThermalModel =
     (if length PSGplanetReflectionModel \<noteq> length planetThermalModel
      then Inl (ValueError ''operands could not be broadcast together'')
      else
        let planetReflectionOnly =
              map2 (\<lambda>a b. \<bar>a - b\<bar>) (refl_planet PSGplanetReflectionModel)
                (thermal_planet planetThermalModel);
            planetFluxFraction =
              map2 (/) planetReflectionOnly (refl_stellar PSGplanetReflectionModel)
        in
        and_then (column allModelSpectra ''sumfluxTowardsPlanet'') (\<lambda>sumfluxTowardsPlanet.
          if length sumfluxTowardsPlanet \<noteq> length planetThermalModel
          then Inl (ValueError ''Length of values does not match length of index'')
          else
            let adjustedReflectionFlux = map2 (*) planetFluxFraction sumfluxTowardsPlanet;
                df1 = set_column allModelSpectra ''planetReflection''
                        (map2 (+) adjustedReflectionFlux (thermal_planet planetThermalModel))
            in Inr (set_column df1 ''planetThermal'' (thermal_planet planetThermalModel))))"

subsection \<open>Parameters and files\<close>

text \<open>
  The run parameters come from the module \<open>read_info\<close>, which is not part of the sources:
  they are a parameter of the model, with the fields the script reads.
\<close>

record ParamModel =
  starName :: string
  teffStar :: int
  teffSpot :: int
  teffFac :: int
  erg_sTOwatts :: real
  cm2TOm2 :: real
  cmTOum :: real
  distanceFluxCorrection :: real
  total_images :: int
  phase1 :: real
  delta_phase_planet :: real
  delta_phase_star :: real

text \<open>
  The files the script touches, by directory, each with its parsed content:
  \<^item> \<open>NextGenModels/BinnedData/binned{teff}StellarModel.txt\<close>, by \<open>teff\<close>: rows of
    wavelength and flux;
  \<^item> \<open>{starName}/Data/SurfaceCoveragePercentage/surfaceCoveragePercentageDict.csv\<close>, by
    star name: rows of a phase and a dictionary;
  \<^item> \<open>{starName}/Data/PSGCombinedSpectra/{name}\<close> and
    \<open>{starName}/Data/PSGThermalSpectra/{name}\<close>, by star name and file name;
  \<^item> \<open>{starName}/Data/AllModelSpectraValues/phase{index}.csv\<close>, by star name and index:
    the only files the script writes.
\<close>

record files =
  BinnedData :: "int \<rightharpoonup> (real \<times> real) list"
  surfaceCoveragePercentageDict :: "string \<rightharpoonup> (real \<times> (string \<rightharpoonup> real)) list"
  PSGCombinedSpectra :: "string \<times> string \<rightharpoonup> reflection_table"
  PSGThermalSpectra :: "string \<times> string \<rightharpoonup> thermal_table"
  AllModelSpectraValues :: "string \<times> nat \<rightharpoonup> dataframe"

definition read_stellar_model :: "files \<Rightarrow> int \<Rightarrow> error + (real \<times> real) list" where
  "read_stellar_model fs teff =
     (case BinnedData fs teff of
        None \<Rightarrow> Inl (FileNotFoundError ''NextGenModels/BinnedData'')
      | Some rows \<Rightarrow> Inr rows)"

definition psg_file_name :: "real \<Rightarrow> string" where
  "psg_file_name planetPhase = ''phase'' @ format_3f planetPhase @ ''.txt''"

definition read_reflection :: "files \<Rightarrow> string \<Rightarrow> string \<Rightarrow> error + reflection_table" where
  "read_reflection fs star name =
     (case PSGCombinedSpectra fs (star, name) of
        None \<Rightarrow> Inl (FileNotFoundError (star @ ''/Data/PSGCombinedSpectra/'' @ name))
      | Some t \<Rightarrow> Inr t)"

definition read_thermal :: "files \<Rightarrow> string \<Rightarrow> string \<Rightarrow> error + thermal_table" where
  "read_thermal fs star name =
     (case PSGThermalSpectra fs (star, name) of
        None \<Rightarrow> Inl (FileNotFoundError (star @ ''/Data/PSGThermalSpectra/'' @ name))
      | Some t \<Rightarrow> Inr t)"

definition to_csv :: "files \<Rightarrow> string \<Rightarrow> nat \<Rightarrow> dataframe \<Rightarrow> files" where
  "to_csv fs star index df =
     fs\<lparr>AllModelSpectraValues := (AllModelSpectraValues fs)((star, index) \<mapsto> df)\<rparr>"

subsection \<open>Startup\<close>

text \<open>
  Comparing two Series of different lengths raises ValueError in pandas; two Series of one
  length are compared elementwise and \<open>np.all\<close> folds the result.
\<close>

definition series_all_eq :: "series \<Rightarrow> series \<Rightarrow> error + bool" where
  "series_all_eq xs ys =
     (if length xs \<noteq> length ys
      then Inl (ValueError ''Can only compare identically-labeled Series objects'')
      else Inr (list_all2 (=) xs ys))"

definition wavelength_check :: "series \<Rightarrow> series \<Rightarrow> series \<Rightarrow> error + unit" where
  "wavelength_check phot spot fac =
     and_then (series_all_eq phot spot) (\<lambda>same_spot.
       if \<not> same_spot
       then Inl (ValueError ''The star, spot, and faculae spectra should be on the same wavelength scale, and currently are not.'')
       else and_then (series_all_eq phot fac) (\<lambda>same_fac.
         if \<not> same_fac
         then Inl (ValueError ''The star, spot, and faculae spectra should be on the same wavelength scale, and currently are not.'')
         else Inr ()))"

definition conversion :: "ParamModel \<Rightarrow> real" where
  "conversion Params =
     erg_sTOwatts Params * cm2TOm2 Params * cmTOum Params * distanceFluxCorrection Params"

definition base_table ::
  "ParamModel \<Rightarrow> (real \<times> real) list \<Rightarrow> (real \<times> real) list \<Rightarrow> (real \<times> real) list \<Rightarrow> dataframe" where
  "base_table Params photModel spotModel facModel =
     [(''wavelength'', map fst photModel),
      (''photflux'', series_scale (map snd photModel) (conversion Params)),
      (''spotflux'', series_scale (map snd spotModel) (conversion Params)),
      (''facflux'', series_scale (map snd facModel) (conversion Params))]"

definition load_coverage ::
  "(real \<times> (string \<rightharpoonup> real)) list \<Rightarrow> (real \<rightharpoonup> (string \<rightharpoonup> real))" where
  "load_coverage rows = foldl (\<lambda>d row. d(fst row \<mapsto> snd row)) Map.empty rows"

definition read_coverage ::
  "files \<Rightarrow> string \<Rightarrow> error + (real \<times> (string \<rightharpoonup> real)) list" where
  "read_coverage fs star =
     (case surfaceCoveragePercentageDict fs star of
        None \<Rightarrow> Inl (FileNotFoundError
                     (star @ ''/Data/SurfaceCoveragePercentage/surfaceCoveragePercentageDict.csv''))
      | Some rows \<Rightarrow> Inr rows)"

definition startup ::
  "ParamModel \<Rightarrow> files \<Rightarrow> error + dataframe \<times> (real \<rightharpoonup> (string \<rightharpoonup> real))" where
  "startup Params fs =
     and_then (read_stellar_model fs (teffStar Params)) (\<lambda>photModel.
     and_then (read_stellar_model fs (teffSpot Params)) (\<lambda>spotModel.
     and_then (read_stellar_model fs (teffFac Params)) (\<lambda>facModel.
     and_then (wavelength_check (map fst photModel) (map fst spotModel) (map fst facModel))
       (\<lambda>_.
     and_then (read_coverage fs (starName Params)) (\<lambda>rows.
     Inr (base_table Params photModel spotModel facModel, load_coverage rows))))))"

subsection \<open>One exposure\<close>

record exposure_phases =
  planetPhase :: real
  starPhase :: real
  starPhaseFacingPlanet :: real

definition raw_planetPhase :: "ParamModel \<Rightarrow> nat \<Rightarrow> real" where
  "raw_planetPhase Params index =
     py_mod (phase1 Params + delta_phase_planet Params * real index) 360"

definition raw_starPhase :: "ParamModel \<Rightarrow> nat \<Rightarrow> real" where
  "raw_starPhase Params index = py_mod (delta_phase_star Params * real index) 360"

definition raw_starPhaseFacingPlanet :: "ParamModel \<Rightarrow> nat \<Rightarrow> real" where
  "raw_starPhaseFacingPlanet Params index =
     py_mod (180 - raw_starPhase Params index + raw_planetPhase Params index) 360"

text \<open>The phases of exposure \<open>index\<close> after the substitutions of the loop body.\<close>

definition phases :: "ParamModel \<Rightarrow> nat \<Rightarrow> exposure_phases" where
  "phases Params index =
     (let pp = raw_planetPhase Params index;
          sp = raw_starPhase Params index;
          sfp = raw_starPhaseFacingPlanet Params index;
          pp = (if pp = 180 then 182 else pp);
          pp = (if pp = 185 then 186 else pp);
          sfp = (if sfp = real_of_int (total_images Params + 1) then 0 else sfp)
      in \<lparr>planetPhase = pp, starPhase = sp, starPhaseFacingPlanet = sfp\<rparr>)"

definition tempPhase :: "exposure_phases \<Rightarrow> real" where
  "tempPhase ph = py_mod (py_round3 (starPhase ph)) 360"

definition tempPhaseFacingPlanet :: "exposure_phases \<Rightarrow> real" where
  "tempPhaseFacingPlanet ph =
     (let t = py_round3 (starPhaseFacingPlanet ph) in if t = 360 then 0 else t)"

definition coverage_at ::
  "(real \<rightharpoonup> (string \<rightharpoonup> real)) \<Rightarrow> real \<Rightarrow> error + (string \<rightharpoonup> real)" where
  "coverage_at surfaceCoverageDict k =
     (case surfaceCoverageDict k of None \<Rightarrow> Inl KeyError | Some d \<Rightarrow> Inr d)"

definition exposure ::
  "ParamModel \<Rightarrow> (real \<rightharpoonup> (string \<rightharpoonup> real)) \<Rightarrow> files \<Rightarrow> dataframe \<Rightarrow> nat
     \<Rightarrow> error + dataframe" where
  "exposure Params surfaceCoverageDict fs allModelSpectra index =
     (let ph = phases Params index; name = psg_file_name (planetPhase ph) in
      and_then (read_reflection fs (starName Params) name) (\<lambda>PSGplanetReflectionModel.
      and_then (read_thermal fs (starName Params) name) (\<lambda>planetThermalModel.
      and_then (coverage_at surfaceCoverageDict (tempPhase ph)) (\<lambda>percentagesDict.
      and_then (coverage_at surfaceCoverageDict (tempPhaseFacingPlanet ph))
        (\<lambda>percentagesDictTowardsPlanet.
      and_then (calculate_combined_spectrum allModelSpectra percentagesDict
                  percentagesDictTowardsPlanet) (\<lambda>df1.
      calculate_planet_flux df1 PSGplanetReflectionModel planetThermalModel))))))"

subsection \<open>The loop and the script\<close>

text \<open>
  The loop runs over \<open>range(total_images)\<close> and works on one table, which every
  exposure updates and then writes. An exception ends the run where it happens: the files
  written so far stay. The lines that the script prints are left out.
\<close>

fun exposures ::
  "ParamModel \<Rightarrow> (real \<rightharpoonup> (string \<rightharpoonup> real)) \<Rightarrow> nat list \<Rightarrow> dataframe \<Rightarrow> files
     \<Rightarrow> files \<times> error option" where
  "exposures Params cov [] df fs = (fs, None)"
| "exposures Params cov (index # rest) df fs =
     (case exposure Params cov fs df index of
        Inl e \<Rightarrow> (fs, Some e)
      | Inr df' \<Rightarrow> exposures Params cov rest df' (to_csv fs (starName Params) index df'))"

definition main :: "ParamModel \<Rightarrow> files \<Rightarrow> files \<times> error option" where
  "main Params fs =
     (case startup Params fs of
        Inl e \<Rightarrow> (fs, Some e)
      | Inr (df, cov) \<Rightarrow> exposures Params cov [0..<nat (total_images Params)] df fs)"

text \<open>The columns that the loop adds to the working table or overwrites.\<close>

definition derived_columns :: "string set" where
  "derived_columns = {''sumflux'', ''sumfluxTowardsPlanet'', ''planetReflection'', ''planetThermal''}"

section \<open>The phase-resolved analyzer (VSPEC/analysis.py)\<close>

subsection \<open>Quantities\<close>

text \<open>
  An astropy quantity is a number with a unit. The units that occur are degrees of angle,
  degrees Celsius, seconds and the flux unit of the analyzer; no two of them convert into
  each other, so adding a quantity to one of another unit raises UnitConversionError.
\<close>

datatype unit_of_measure = deg | deg_C | seconds | fluxunit

type_synonym quantity = "real \<times> unit_of_measure"

definition quantity_iadd :: "quantity \<Rightarrow> quantity \<Rightarrow> error + quantity" where
  "quantity_iadd a b =
     (if snd b = snd a then Inr (fst a + fst b, snd a) else Inl UnitConversionError)"

subsection \<open>unique_phase\<close>

text \<open>
  The inner loop of \<open>__init__\<close>, \<open>while unique_phase[i] > unique_phase[i+1]:
  unique_phase[i+1] += 360*u.deg_C\<close>, on the values \<open>prev\<close> and \<open>cur\<close> of the two
  entries, both in degrees of angle.
\<close>

function unwrap_while :: "real \<Rightarrow> real \<Rightarrow> error + real" where
  "unwrap_while prev cur =
     (if cur < prev
      then and_then (quantity_iadd (cur, deg) (360, deg_C)) (\<lambda>q. unwrap_while prev (fst q))
      else Inr cur)"
  by pat_completeness auto

termination unwrap_while
  by (relation "measure (\<lambda>(prev, cur). nat \<lceil>(prev - cur) / 360\<rceil>)")
     (auto simp: quantity_iadd_def)

declare unwrap_while.simps [simp del]

text \<open>The outer loop, \<open>for i in range(len(unique_phase) - 1)\<close>, updating the array in place.\<close>

fun unique_phase_loop :: "nat list \<Rightarrow> real list \<Rightarrow> error + real list" where
  "unique_phase_loop [] up = Inr up"
| "unique_phase_loop (i # rest) up =
     and_then (unwrap_while (up ! i) (up ! (i + 1)))
       (\<lambda>v. unique_phase_loop rest (up[i + 1 := v]))"

definition init_unique_phase :: "real list \<Rightarrow> error + real list" where
  "init_unique_phase phase_deg = unique_phase_loop [0..<length phase_deg - 1] phase_deg"

subsection \<open>The dataset\<close>

text \<open>
  The five arrays have one row for each wavelength bin and one column for each exposure.
  Reading and parsing the files is left out: \<open>PhaseAnalyzer_init\<close> takes the rows of
  \<open>observation_info.csv\<close> (time and phase) and the arrays as they are read. A table
  without rows cannot be made into a quantity: \<open>values * u.s\<close> raises IndexError before
  anything else is computed.
\<close>

record PhaseAnalyzer =
  N_images :: nat
  time :: "real list"
  phase :: "real list"
  unique_phase :: "real list"
  star :: "real list list"
  reflected :: "real list list"
  thermal :: "real list list"
  total :: "real list list"
  noise :: "real list list"

definition PhaseAnalyzer_init ::
  "(real \<times> real) list \<Rightarrow> real list list \<Rightarrow> real list list \<Rightarrow> real list list
     \<Rightarrow> real list list \<Rightarrow> real list list \<Rightarrow> error + PhaseAnalyzer" where
  "PhaseAnalyzer_init observation_data star_a reflected_a thermal_a total_a noise_a =
     (if observation_data = [] then Inl IndexError
      else
        and_then (init_unique_phase (map snd observation_data)) (\<lambda>up.
          Inr \<lparr>N_images = length observation_data,
               time = map fst observation_data,
               phase = map snd observation_data,
               unique_phase = up,
               star = star_a, reflected = reflected_a, thermal = thermal_a,
               total = total_a, noise = noise_a\<rparr>))"

text \<open>
  \<open>getattr(self, source)\<close> followed by a two-dimensional index. The five arrays
  answer; the one-dimensional quantities raise IndexError; every other attribute of the
  instance (the exposure count, the metadata table, the methods, and what the class has
  from \<open>object\<close>) cannot be indexed in this way and raises TypeError; a name that is no
  attribute raises AttributeError.
\<close>

definition one_dimensional_attributes :: "string list" where
  "one_dimensional_attributes = [''time'', ''phase'', ''unique_phase'', ''wavelength'']"

definition other_attributes :: "string list" where
  "other_attributes =
     [''N_images'', ''observation_data'', ''lightcurve'', ''combine'',
      ''__init__'', ''__class__'', ''__dict__'', ''__doc__'', ''__module__'', ''__weakref__'',
      ''__delattr__'', ''__dir__'', ''__eq__'', ''__format__'', ''__ge__'',
      ''__getattribute__'', ''__gt__'', ''__hash__'', ''__init_subclass__'', ''__le__'',
      ''__lt__'', ''__ne__'', ''__new__'', ''__reduce__'', ''__reduce_ex__'', ''__repr__'',
      ''__setattr__'', ''__sizeof__'', ''__str__'', ''__subclasshook__'']"

definition source_array :: "PhaseAnalyzer \<Rightarrow> string \<Rightarrow> error + real list list" where
  "source_array a source =
     (if source = ''star'' then Inr (star a)
      else if source = ''reflected'' then Inr (reflected a)
      else if source = ''thermal'' then Inr (thermal a)
      else if source = ''total'' then Inr (total a)
      else if source = ''noise'' then Inr (noise a)
      else if source \<in> set one_dimensional_attributes then Inl IndexError
      else if source \<in> set other_attributes then Inl TypeError
      else Inl AttributeError)"

subsection \<open>Random numbers\<close>

text \<open>
  \<open>np.random.normal(scale=sigma)\<close> draws one number for each entry of \<open>sigma\<close>. The
  draws are an argument of the model: \<open>z r c\<close> is the standard normal draw for the entry
  in row \<open>r\<close> and column \<open>c\<close>, scaled by the entry. A negative scale raises ValueError.
\<close>

definition random_normal :: "(nat \<Rightarrow> nat \<Rightarrow> real) \<Rightarrow> real list list \<Rightarrow> error + real list list" where
  "random_normal z sigma =
     (if list_ex (list_ex (\<lambda>s. s < 0)) sigma then Inl (ValueError ''scale < 0'')
      else Inr (map (\<lambda>r. map (\<lambda>c. sigma ! r ! c * z r c) [0..<length (sigma ! r)])
                  [0..<length sigma]))"

definition array_add :: "real list list \<Rightarrow> real list list \<Rightarrow> real list list" where
  "array_add xs ys = map2 (map2 (+)) xs ys"

subsection \<open>lightcurve\<close>

datatype pixel = Pixel int | PixelRange int int

datatype normalize = NormInt int | NormStr string

text \<open>
  The result of \<open>lightcurve\<close> is a quantity in the flux unit when it is not normalised,
  and a list of plain numbers when it is.
\<close>

datatype lightcurve_result = Unitless "real list" | InFluxUnit "real list"

text \<open>
  Modelled from the spec: the helper \<open>to_float\<close> of \<open>VSPEC.helpers\<close> is not part of
  the sources. The specification says of a normalised light curve that every value is
  divided by the reference value, producing a unitless series; so
  \<open>to_float(y / d, u.Unit(''))\<close> is the list of the quotients, without a unit.
\<close>

definition to_float_ratio :: "real list \<Rightarrow> real \<Rightarrow> lightcurve_result" where
  "to_float_ratio y d = Unitless (map (\<lambda>v. v / d) y)"

text \<open>
  \<open>arr[pixel, :]\<close>: an integer picks one row (one dimension), a pair is a slice of rows
  (two dimensions). The flag tells whether the selection has two dimensions; a single row
  is kept as a one-row array.
\<close>

definition select_pixel :: "real list list \<Rightarrow> pixel \<Rightarrow> error + bool \<times> real list list" where
  "select_pixel arr px =
     (case px of
        Pixel k \<Rightarrow> and_then (py_index arr k) (\<lambda>row. Inr (False, [row]))
      | PixelRange start stop \<Rightarrow> Inr (True, py_slice arr (start, stop)))"

definition mean_axis0 :: "nat \<Rightarrow> real list list \<Rightarrow> real list" where
  "mean_axis0 ncols rows =
     map (\<lambda>c. sum_list (map (\<lambda>r. r ! c) rows) / real (length rows)) [0..<ncols]"

definition normalize_curve :: "normalize \<Rightarrow> real list \<Rightarrow> error + lightcurve_result" where
  "normalize_curve nrm y =
     (case nrm of
        NormInt n \<Rightarrow> and_then (py_index y n) (\<lambda>d. Inr (to_float_ratio y d))
      | NormStr s \<Rightarrow>
          if s = ''max''
          then (if y = [] then Inl (ValueError ''zero-size array to reduction operation maximum'')
                else Inr (to_float_ratio y (Max (set y))))
          else Inr (InFluxUnit y))"

definition lightcurve ::
  "PhaseAnalyzer \<Rightarrow> string \<Rightarrow> pixel \<Rightarrow> normalize \<Rightarrow> bool \<Rightarrow> (nat \<Rightarrow> nat \<Rightarrow> real)
     \<Rightarrow> error + lightcurve_result" where
  "lightcurve a source px nrm with_noise z =
     and_then (source_array a source) (\<lambda>arr.
     and_then (select_pixel arr px) (\<lambda>(two_dim, y).
     and_then (if with_noise
               then and_then (select_pixel (noise a) px) (\<lambda>(_, sigma).
                    and_then (random_normal z sigma) (\<lambda>draws. Inr (array_add y draws)))
               else Inr y) (\<lambda>y.
     normalize_curve nrm (if two_dim then mean_axis0 (N_images a) y else hd y))))"

subsection \<open>combine\<close>

definition combine ::
  "PhaseAnalyzer \<Rightarrow> string \<Rightarrow> int \<times> int \<Rightarrow> bool \<Rightarrow> (nat \<Rightarrow> nat \<Rightarrow> real)
     \<Rightarrow> error + real list" where
  "combine a source images with_noise z =
     (if source = ''noise''
      then
        let y = map (\<lambda>row. map (\<lambda>x. x ^ 2) (py_slice row images)) (noise a);
            n_images = slice_len (N_images a) images
        in Inr (map (\<lambda>row. sqrt (sum_list row / (real n_images) ^ 2)) y)
      else
        and_then (source_array a source) (\<lambda>arr.
        let y = map (\<lambda>row. py_slice row images) arr in
        and_then (if with_noise
                  then and_then (random_normal z (map (\<lambda>row. py_slice row images) (noise a)))
                         (\<lambda>draws. Inr (array_add y draws))
                  else Inr y) (\<lambda>y.
        Inr (map (\<lambda>row. sum_list row / real (length row)) y))))"

section \<open>The run header (VSPEC/params/read.py)\<close>

text \<open>
  A call of \<open>Header(...)\<close> binds arguments to the parameters \<open>data_path\<close>,
  \<open>teff_min\<close>, \<open>teff_max\<close>, \<open>seed\<close> and \<open>desc\<close>. In the record of a call, \<open>None\<close>
  says that the argument is not supplied and \<open>Some v\<close> that it is supplied with the
  value \<open>v\<close>; for \<open>seed\<close> and \<open>desc\<close> the value may itself be Python's \<open>None\<close>.
  Of the five parameters only \<open>desc\<close> has a default in the signature; a call that leaves
  out a parameter without default raises TypeError.
\<close>

record 'q Header =
  data_path :: string
  teff_min :: 'q
  teff_max :: 'q
  seed :: "int option"
  desc :: "string option"

record 'q Header_call =
  arg_data_path :: "string option"
  arg_teff_min :: "'q option"
  arg_teff_max :: "'q option"
  arg_seed :: "int option option"
  arg_desc :: "string option option"

definition Header_init :: "'q Header_call \<Rightarrow> error + 'q Header" where
  "Header_init c =
     (case (arg_data_path c, arg_teff_min c, arg_teff_max c, arg_seed c) of
        (Some p, Some lo, Some hi, Some sd) \<Rightarrow>
          Inr \<lparr>data_path = p, teff_min = lo, teff_max = hi, seed = sd,
               desc = (case arg_desc c of None \<Rightarrow> None | Some d \<Rightarrow> d)\<rparr>
      | _ \<Rightarrow> Inl TypeError)"

text \<open>
  The values of a parsed YAML mapping. \<open>Path\<close>, \<open>u.Quantity\<close> and \<open>int\<close> on a string
  belong to libraries: they are parameters of \<open>Header_from_dict\<close>.
\<close>

datatype yaml = YNone | YInt int | YReal real | YStr string

definition dict_item :: "(string \<rightharpoonup> yaml) \<Rightarrow> string \<Rightarrow> error + yaml" where
  "dict_item d k = (case d k of None \<Rightarrow> Inl KeyError | Some v \<Rightarrow> Inr v)"

definition dict_get_default :: "(string \<rightharpoonup> yaml) \<Rightarrow> string \<Rightarrow> yaml" where
  "dict_get_default d k = (case d k of None \<Rightarrow> YNone | Some v \<Rightarrow> v)"

definition py_int :: "(string \<Rightarrow> error + int) \<Rightarrow> yaml \<Rightarrow> error + int" where
  "py_int int_of_str v =
     (case v of
        YNone \<Rightarrow> Inl TypeError
      | YInt n \<Rightarrow> Inr n
      | YReal r \<Rightarrow> Inr (if r < 0 then \<lceil>r\<rceil> else \<lfloor>r\<rfloor>)
      | YStr s \<Rightarrow> int_of_str s)"

definition py_str :: "(real \<Rightarrow> string) \<Rightarrow> yaml \<Rightarrow> string" where
  "py_str str_of_real v =
     (case v of
        YNone \<Rightarrow> ''None''
      | YInt n \<Rightarrow> (if n < 0 then ''-'' else []) @ str_nat (nat \<bar>n\<bar>)
      | YReal r \<Rightarrow> str_of_real r
      | YStr s \<Rightarrow> s)"

definition Header_from_dict ::
  "(yaml \<Rightarrow> error + string) \<Rightarrow> (yaml \<Rightarrow> error + 'q) \<Rightarrow> (string \<Rightarrow> error + int)
     \<Rightarrow> (real \<Rightarrow> string) \<Rightarrow> (string \<rightharpoonup> yaml) \<Rightarrow> error + 'q Header" where
  "Header_from_dict Path Quantity int_of_str str_of_real d =
     and_then (and_then (dict_item d ''data_path'') Path) (\<lambda>p.
     and_then (and_then (dict_item d ''teff_min'') Quantity) (\<lambda>lo.
     and_then (and_then (dict_item d ''teff_max'') Quantity) (\<lambda>hi.
     and_then (if dict_get_default d ''seed'' = YNone then Inr None
               else and_then (py_int int_of_str (dict_get_default d ''seed''))
                      (\<lambda>n. Inr (Some n))) (\<lambda>sd.
     let ds = (if dict_get_default d ''desc'' = YNone then None
               else Some (py_str str_of_real (dict_get_default d ''desc'')))
     in Header_init \<lparr>arg_data_path = Some p, arg_teff_min = Some lo, arg_teff_max = Some hi,
                     arg_seed = Some sd, arg_desc = Some ds\<rparr>))))"

section \<open>Example inputs\<close>

text \<open>
  Two exposures of a star: the planet starts at phase 180 and moves 5 degrees for each
  exposure, the star turns 10 degrees.
\<close>

definition example_params :: ParamModel where
  "example_params =
     \<lparr>starName = ''star'', teffStar = 3000, teffSpot = 2600, teffFac = 3100,
      erg_sTOwatts = 1, cm2TOm2 = 1, cmTOum = 1, distanceFluxCorrection = 1,
      total_images = 2, phase1 = 180, delta_phase_planet = 5, delta_phase_star = 10\<rparr>"

text \<open>A run in which the star phase facing the planet is \<open>total_images + 1 = 3\<close>.\<close>

definition wrap_params :: ParamModel where
  "wrap_params =
     example_params\<lparr>phase1 := 183, delta_phase_planet := 0, delta_phase_star := 0\<rparr>"

text \<open>Stellar models whose wavelength grids differ in the second row.\<close>

definition mismatch_files :: files where
  "mismatch_files =
     \<lparr>BinnedData = [3000 \<mapsto> [(1, 2), (2, 4)], 2600 \<mapsto> [(1, 6), (3, 8)], 3100 \<mapsto> [(1, 10), (2, 12)]],
      surfaceCoveragePercentageDict = Map.empty,
      PSGCombinedSpectra = Map.empty,
      PSGThermalSpectra = Map.empty,
      AllModelSpectraValues = Map.empty\<rparr>"

text \<open>A dataset of two wavelength bins and two exposures.\<close>

definition example_analyzer :: PhaseAnalyzer where
  "example_analyzer =
     \<lparr>N_images = 2, time = [0, 60], phase = [10, 20], unique_phase = [10, 20],
      star = [[2, 4], [5, 10]], reflected = [[1, 1], [1, 1]], thermal = [[1, 2], [3, 4]],
      total = [[4, 7], [9, 15]], noise = [[3, 4], [6, 8]]\<rparr>"

text \<open>
  A complete set of input files for \<open>example_params\<close>, the table and the coverage
  dictionary that startup builds from them, and the tables of the two exposures.
\<close>

definition example_files :: files where
  "example_files =
     \<lparr>BinnedData =
        [3000 \<mapsto> [(1, 2), (2, 4)], 2600 \<mapsto> [(1, 6), (2, 8)], 3100 \<mapsto> [(1, 10), (2, 12)]],
      surfaceCoveragePercentageDict =
        [''star'' \<mapsto>
           [(0, [''phot'' \<mapsto> 1 / 2, ''spot'' \<mapsto> 1 / 4, ''fac'' \<mapsto> 1 / 4]),
            (10, [''phot'' \<mapsto> 1, ''spot'' \<mapsto> 0, ''fac'' \<mapsto> 0]),
            (355, [''phot'' \<mapsto> 0, ''spot'' \<mapsto> 1, ''fac'' \<mapsto> 0])]],
      PSGCombinedSpectra =
        [(''star'', ''phase182.000.txt'') \<mapsto> [(1, 10, 8, 2), (2, 10, 8, 3)],
         (''star'', ''phase186.000.txt'') \<mapsto> [(1, 10, 4, 3), (2, 10, 4, 5)]],
      PSGThermalSpectra =
        [(''star'', ''phase182.000.txt'') \<mapsto> [(1, 1, 1), (2, 1, 1)],
         (''star'', ''phase186.000.txt'') \<mapsto> [(1, 1, 1), (2, 1, 2)]],
      AllModelSpectraValues = Map.empty\<rparr>"

definition example_base :: dataframe where
  "example_base =
     [(''wavelength'', [1, 2]), (''photflux'', [2, 4]), (''spotflux'', [6, 8]),
      (''facflux'', [10, 12])]"

definition example_coverage :: "real \<rightharpoonup> (string \<rightharpoonup> real)" where
  "example_coverage =
     [0 \<mapsto> [''phot'' \<mapsto> 1 / 2, ''spot'' \<mapsto> 1 / 4, ''fac'' \<mapsto> 1 / 4],
      10 \<mapsto> [''phot'' \<mapsto> 1, ''spot'' \<mapsto> 0, ''fac'' \<mapsto> 0],
      355 \<mapsto> [''phot'' \<mapsto> 0, ''spot'' \<mapsto> 1, ''fac'' \<mapsto> 0]]"

definition example_phase0 :: dataframe where
  "example_phase0 =
     example_base @
     [(''sumflux'', [5, 7]), (''sumfluxTowardsPlanet'', [5, 7]),
      (''planetReflection'', [13 / 8, 11 / 4]), (''planetThermal'', [1, 1])]"

definition example_phase1 :: dataframe where
  "example_phase1 =
     example_base @
     [(''sumflux'', [2, 4]), (''sumfluxTowardsPlanet'', [6, 8]),
      (''planetReflection'', [4, 8]), (''planetThermal'', [1, 2])]"

text \<open>The same input files, with output files left by an earlier run.\<close>

definition stale_files :: files where
  "stale_files =
     example_files\<lparr>AllModelSpectraValues := [(''star'', 0) \<mapsto> [], (''other'', 7) \<mapsto> example_base]\<rparr>"

text \<open>
  Input files in which the reflected spectrum exists for phase 180 but not for 182, and
  input files in which the thermal spectrum exists for phase 185 but not for 186.
\<close>

definition only_180_files :: files where
  "only_180_files =
     example_files\<lparr>PSGCombinedSpectra :=
        [(''star'', ''phase180.000.txt'') \<mapsto> [(1, 10, 8, 2), (2, 10, 8, 3)],
         (''star'', ''phase186.000.txt'') \<mapsto> [(1, 10, 4, 3), (2, 10, 4, 5)]]\<rparr>"

definition only_185_thermal_files :: files where
  "only_185_thermal_files =
     example_files\<lparr>PSGThermalSpectra :=
        [(''star'', ''phase182.000.txt'') \<mapsto> [(1, 1, 1), (2, 1, 1)],
         (''star'', ''phase185.000.txt'') \<mapsto> [(1, 1, 1), (2, 1, 2)]]\<rparr>"

section \<open>Theorems\<close>

subsection \<open>Helper lemmas\<close>

lemma and_then_Inr [simp]: "and_then (Inr x) f = f x"
  by (simp add: and_then_def)

lemma and_then_Inl [simp]: "and_then (Inl e) f = Inl e"
  by (simp add: and_then_def)

lemma column_set_column:
  "column (set_column df k c) k' = (if k' = k then Inr c else column df k')"
  by (simp add: column_def set_column_def update_conv')

lemma py_mod_small: "0 \<le> x \<Longrightarrow> x < m \<Longrightarrow> py_mod x m = x"
  by (simp add: py_mod_def floor_eq_iff)

lemma py_mod_360_360: "py_mod 360 360 = 0"
  by (simp add: py_mod_def)

lemma format_3f_182: "format_3f 182 = ''182.000''"
  by (simp add: format_3f_def round_half_even_def str_nat.simps digit_def Let_def)

lemma format_3f_186: "format_3f 186 = ''186.000''"
  by (simp add: format_3f_def round_half_even_def str_nat.simps digit_def Let_def)

lemma example_raw_phases:
  "raw_planetPhase example_params 0 = 180"
  "raw_planetPhase example_params (Suc 0) = 185"
  "raw_starPhase example_params 0 = 0"
  "raw_starPhase example_params (Suc 0) = 10"
  by (simp_all add: raw_planetPhase_def raw_starPhase_def example_params_def py_mod_small)

subsection \<open>The linear combination\<close>

lemma weighted_sum_eq:
  assumes "length sf = length pf" and "length ff = length pf"
  shows "weighted_sum pf p sf s ff f =
         map (\<lambda>k. p * pf ! k + s * sf ! k + f * ff ! k) [0..<length pf]"
  using assms
  by (intro nth_equalityI)
     (simp_all add: weighted_sum_def series_add_def series_scale_def mult.commute)

text \<open>
  C1: when the working table holds the three flux columns on one grid (columns of one
  length), \<open>calculate_combined_spectrum\<close> succeeds for any coverage fractions
  \<open>(p, s, f)\<close> towards the observer and \<open>(p', s', f')\<close> towards the planet, the column
  \<open>sumflux\<close> is \<open>p * photflux + s * spotflux + f * facflux\<close> at each wavelength, and
  \<open>sumfluxTowardsPlanet\<close> is the same combination with the planet-facing fractions.
  The fractions need not sum to 1 for this.
\<close>

theorem combined_spectrum_linear:
  assumes "column df ''photflux'' = Inr pf"
    and "column df ''spotflux'' = Inr sf"
    and "column df ''facflux'' = Inr ff"
    and "length sf = length pf" and "length ff = length pf"
    and "towardsObserver ''phot'' = Some p"
    and "towardsObserver ''spot'' = Some s"
    and "towardsObserver ''fac'' = Some f"
    and "towardsPlanet ''phot'' = Some p'"
    and "towardsPlanet ''spot'' = Some s'"
    and "towardsPlanet ''fac'' = Some f'"
  shows "\<exists>df'. calculate_combined_spectrum df towardsObserver towardsPlanet = Inr df'
           \<and> column df' ''sumflux'' =
               Inr (map (\<lambda>k. p * pf ! k + s * sf ! k + f * ff ! k) [0..<length pf])
           \<and> column df' ''sumfluxTowardsPlanet'' =
               Inr (map (\<lambda>k. p' * pf ! k + s' * sf ! k + f' * ff ! k) [0..<length pf])"
  using assms
  by (simp add: calculate_combined_spectrum_def dict_get_def column_set_column
        weighted_sum_eq Let_def)

theorem combined_spectrum_linear_witness:
  "\<exists>df'. calculate_combined_spectrum
           [(''wavelength'', [1, 2]), (''photflux'', [2, 4]), (''spotflux'', [6, 8]),
            (''facflux'', [10, 12])]
           [''phot'' \<mapsto> 1 / 2, ''spot'' \<mapsto> 1 / 4, ''fac'' \<mapsto> 1 / 4]
           [''phot'' \<mapsto> 1, ''spot'' \<mapsto> 0, ''fac'' \<mapsto> 0] = Inr df'
         \<and> column df' ''sumflux'' = Inr [5, 7]
         \<and> column df' ''sumfluxTowardsPlanet'' = Inr [2, 4]"
  using combined_spectrum_linear
          [of "[(''wavelength'', [1, 2]), (''photflux'', [2, 4]), (''spotflux'', [6, 8]),
                (''facflux'', [10, 12])]"
              "[2, 4]" "[6, 8]" "[10, 12]"
              "[''phot'' \<mapsto> 1 / 2, ''spot'' \<mapsto> 1 / 4, ''fac'' \<mapsto> 1 / 4]"
              "1 / 2" "1 / 4" "1 / 4"
              "[''phot'' \<mapsto> 1, ''spot'' \<mapsto> 0, ''fac'' \<mapsto> 0]" 1 0 0]
  by (simp add: column_def upt_conv_Cons)

subsection \<open>The phases of an exposure\<close>

lemma phases_starPhaseFacingPlanet:
  "starPhaseFacingPlanet (phases P i) =
     (if raw_starPhaseFacingPlanet P i = real_of_int (total_images P + 1) then 0
      else raw_starPhaseFacingPlanet P i)"
  by (simp add: phases_def Let_def)

lemma phases_planetPhase:
  "planetPhase (phases P i) =
     (if raw_planetPhase P i = 180 then 182
      else if raw_planetPhase P i = 185 then 186 else raw_planetPhase P i)"
  by (simp add: phases_def Let_def)

text \<open>An exposure reads the external tool's two files of one name, and no other.\<close>

lemma exposure_frame:
  assumes "PSGCombinedSpectra fs (starName P, psg_file_name (planetPhase (phases P i)))
           = PSGCombinedSpectra fs' (starName P, psg_file_name (planetPhase (phases P i)))"
    and "PSGThermalSpectra fs (starName P, psg_file_name (planetPhase (phases P i)))
           = PSGThermalSpectra fs' (starName P, psg_file_name (planetPhase (phases P i)))"
  shows "exposure P cov fs df i = exposure P cov fs' df i"
  using assms by (simp add: exposure_def read_reflection_def read_thermal_def Let_def)

lemma exposure_reads:
  assumes "psg_file_name (planetPhase (phases P i)) = name"
  shows "exposure P cov fs df i =
     (case PSGCombinedSpectra fs (starName P, name) of
        None \<Rightarrow> Inl (FileNotFoundError (starName P @ ''/Data/PSGCombinedSpectra/'' @ name))
      | Some refl_t \<Rightarrow>
          (case PSGThermalSpectra fs (starName P, name) of
             None \<Rightarrow> Inl (FileNotFoundError (starName P @ ''/Data/PSGThermalSpectra/'' @ name))
           | Some therm_t \<Rightarrow>
               and_then (coverage_at cov (tempPhase (phases P i))) (\<lambda>towardsObserver.
               and_then (coverage_at cov (tempPhaseFacingPlanet (phases P i))) (\<lambda>towardsPlanet.
               and_then (calculate_combined_spectrum df towardsObserver towardsPlanet) (\<lambda>df1.
               calculate_planet_flux df1 refl_t therm_t)))))"
  using assms
  by (simp add: exposure_def read_reflection_def read_thermal_def Let_def
        split: option.split)

text \<open>
  C2: in an exposure whose planet phase \<open>(phase1 + delta_phase_planet * i) mod 360\<close> is
  exactly 180, the planet phase becomes 182 and the exposure reads the reflected and the
  thermal spectrum from the files \<open>phase182.000.txt\<close>: it fails with FileNotFoundError
  naming that file when one of the two is absent, and otherwise computes its tables from
  the contents of these two files. At exactly 185 the same holds with
  \<open>phase186.000.txt\<close>. The result of the exposure depends on the files of the external
  tool only through the two files of that name. The star phase is not touched, and the
  star phase facing the planet is computed from the planet phase before the substitution.
\<close>

theorem phase_substitution:
  "(raw_planetPhase P i = 180 \<longrightarrow>
      planetPhase (phases P i) = 182
      \<and> psg_file_name (planetPhase (phases P i)) = ''phase182.000.txt''
      \<and> exposure P cov fs df i =
          (case PSGCombinedSpectra fs (starName P, ''phase182.000.txt'') of
             None \<Rightarrow> Inl (FileNotFoundError
                          (starName P @ ''/Data/PSGCombinedSpectra/phase182.000.txt''))
           | Some refl_t \<Rightarrow>
               (case PSGThermalSpectra fs (starName P, ''phase182.000.txt'') of
                  None \<Rightarrow> Inl (FileNotFoundError
                               (starName P @ ''/Data/PSGThermalSpectra/phase182.000.txt''))
                | Some therm_t \<Rightarrow>
                    and_then (coverage_at cov (tempPhase (phases P i))) (\<lambda>towardsObserver.
                    and_then (coverage_at cov (tempPhaseFacingPlanet (phases P i)))
                      (\<lambda>towardsPlanet.
                    and_then (calculate_combined_spectrum df towardsObserver towardsPlanet)
                      (\<lambda>df1.
                    calculate_planet_flux df1 refl_t therm_t))))))
   \<and> (raw_planetPhase P i = 185 \<longrightarrow>
      planetPhase (phases P i) = 186
      \<and> psg_file_name (planetPhase (phases P i)) = ''phase186.000.txt''
      \<and> exposure P cov fs df i =
          (case PSGCombinedSpectra fs (starName P, ''phase186.000.txt'') of
             None \<Rightarrow> Inl (FileNotFoundError
                          (starName P @ ''/Data/PSGCombinedSpectra/phase186.000.txt''))
           | Some refl_t \<Rightarrow>
               (case PSGThermalSpectra fs (starName P, ''phase186.000.txt'') of
                  None \<Rightarrow> Inl (FileNotFoundError
                               (starName P @ ''/Data/PSGThermalSpectra/phase186.000.txt''))
                | Some therm_t \<Rightarrow>
                    and_then (coverage_at cov (tempPhase (phases P i))) (\<lambda>towardsObserver.
                    and_then (coverage_at cov (tempPhaseFacingPlanet (phases P i)))
                      (\<lambda>towardsPlanet.
                    and_then (calculate_combined_spectrum df towardsObserver towardsPlanet)
                      (\<lambda>df1.
                    calculate_planet_flux df1 refl_t therm_t))))))
   \<and> (\<forall>fs fs' cov df.
        PSGCombinedSpectra fs (starName P, psg_file_name (planetPhase (phases P i)))
          = PSGCombinedSpectra fs' (starName P, psg_file_name (planetPhase (phases P i)))
        \<and> PSGThermalSpectra fs (starName P, psg_file_name (planetPhase (phases P i)))
          = PSGThermalSpectra fs' (starName P, psg_file_name (planetPhase (phases P i)))
        \<longrightarrow> exposure P cov fs df i = exposure P cov fs' df i)
   \<and> starPhase (phases P i) = raw_starPhase P i
   \<and> starPhaseFacingPlanet (phases P i) =
       (let v = py_mod (180 - raw_starPhase P i + raw_planetPhase P i) 360
        in if v = real_of_int (total_images P + 1) then 0 else v)"
proof (intro conjI impI allI)
  assume "raw_planetPhase P i = 180"
  then show p: "planetPhase (phases P i) = 182"
    by (simp add: phases_planetPhase)
  then show n: "psg_file_name (planetPhase (phases P i)) = ''phase182.000.txt''"
    by (simp add: psg_file_name_def format_3f_182)
  show "exposure P cov fs df i =
          (case PSGCombinedSpectra fs (starName P, ''phase182.000.txt'') of
             None \<Rightarrow> Inl (FileNotFoundError
                          (starName P @ ''/Data/PSGCombinedSpectra/phase182.000.txt''))
           | Some refl_t \<Rightarrow>
               (case PSGThermalSpectra fs (starName P, ''phase182.000.txt'') of
                  None \<Rightarrow> Inl (FileNotFoundError
                               (starName P @ ''/Data/PSGThermalSpectra/phase182.000.txt''))
                | Some therm_t \<Rightarrow>
                    and_then (coverage_at cov (tempPhase (phases P i))) (\<lambda>towardsObserver.
                    and_then (coverage_at cov (tempPhaseFacingPlanet (phases P i)))
                      (\<lambda>towardsPlanet.
                    and_then (calculate_combined_spectrum df towardsObserver towardsPlanet)
                      (\<lambda>df1.
                    calculate_planet_flux df1 refl_t therm_t)))))"
    unfolding exposure_reads [OF n] by (simp split: option.split)
next
  assume "raw_planetPhase P i = 185"
  then show p: "planetPhase (phases P i) = 186"
    by (simp add: phases_planetPhase)
  then show n: "psg_file_name (planetPhase (phases P i)) = ''phase186.000.txt''"
    by (simp add: psg_file_name_def format_3f_186)
  show "exposure P cov fs df i =
          (case PSGCombinedSpectra fs (starName P, ''phase186.000.txt'') of
             None \<Rightarrow> Inl (FileNotFoundError
                          (starName P @ ''/Data/PSGCombinedSpectra/phase186.000.txt''))
           | Some refl_t \<Rightarrow>
               (case PSGThermalSpectra fs (starName P, ''phase186.000.txt'') of
                  None \<Rightarrow> Inl (FileNotFoundError
                               (starName P @ ''/Data/PSGThermalSpectra/phase186.000.txt''))
                | Some therm_t \<Rightarrow>
                    and_then (coverage_at cov (tempPhase (phases P i))) (\<lambda>towardsObserver.
                    and_then (coverage_at cov (tempPhaseFacingPlanet (phases P i)))
                      (\<lambda>towardsPlanet.
                    and_then (calculate_combined_spectrum df towardsObserver towardsPlanet)
                      (\<lambda>df1.
                    calculate_planet_flux df1 refl_t therm_t)))))"
    unfolding exposure_reads [OF n] by (simp split: option.split)
next
  fix fs fs' :: files and cov df
  assume "PSGCombinedSpectra fs (starName P, psg_file_name (planetPhase (phases P i)))
          = PSGCombinedSpectra fs' (starName P, psg_file_name (planetPhase (phases P i)))
        \<and> PSGThermalSpectra fs (starName P, psg_file_name (planetPhase (phases P i)))
          = PSGThermalSpectra fs' (starName P, psg_file_name (planetPhase (phases P i)))"
  then show "exposure P cov fs df i = exposure P cov fs' df i"
    by (intro exposure_frame) simp_all
next
  show "starPhase (phases P i) = raw_starPhase P i"
    by (simp add: phases_def Let_def)
next
  show "starPhaseFacingPlanet (phases P i) =
       (let v = py_mod (180 - raw_starPhase P i + raw_planetPhase P i) 360
        in if v = real_of_int (total_images P + 1) then 0 else v)"
    by (simp add: phases_starPhaseFacingPlanet raw_starPhaseFacingPlanet_def Let_def)
qed

text \<open>
  C8: the star phase facing the planet, \<open>(180 - starPhase + planetPhase) mod 360\<close>, is
  set to 0 when it equals \<open>total_images + 1\<close> and is left as it is otherwise; the key of
  the planet-facing coverage lookup is computed from the value after this step.
\<close>

theorem boundary_wrap:
  "starPhaseFacingPlanet (phases P i) =
     (if raw_starPhaseFacingPlanet P i = real_of_int (total_images P) + 1 then 0
      else raw_starPhaseFacingPlanet P i)
   \<and> tempPhaseFacingPlanet (phases P i) =
     (if raw_starPhaseFacingPlanet P i = real_of_int (total_images P) + 1 then 0
      else if py_round3 (raw_starPhaseFacingPlanet P i) = 360 then 0
      else py_round3 (raw_starPhaseFacingPlanet P i))"
  by (simp add: phases_starPhaseFacingPlanet tempPhaseFacingPlanet_def Let_def
        py_round3_def round_half_even_def)

theorem boundary_wrap_witness:
  "raw_starPhaseFacingPlanet wrap_params 0 = real_of_int (total_images wrap_params) + 1
   \<and> starPhaseFacingPlanet (phases wrap_params 0) = 0
   \<and> tempPhaseFacingPlanet (phases wrap_params 0) = 0
   \<and> raw_starPhaseFacingPlanet example_params 1 \<noteq> real_of_int (total_images example_params) + 1
   \<and> starPhaseFacingPlanet (phases example_params 1) = 355
   \<and> tempPhaseFacingPlanet (phases example_params 1) = 355"
proof -
  have w: "raw_starPhaseFacingPlanet wrap_params 0 = 3"
    by (simp add: raw_starPhaseFacingPlanet_def raw_planetPhase_def raw_starPhase_def
          wrap_params_def example_params_def py_mod_small py_mod_def)
  have e: "raw_starPhaseFacingPlanet example_params (Suc 0) = 355"
    by (simp add: raw_starPhaseFacingPlanet_def example_raw_phases py_mod_small)
  have t: "total_images wrap_params = 2" "total_images example_params = 2"
    by (simp_all add: wrap_params_def example_params_def)
  have r: "py_round3 355 = 355"
    by (simp add: py_round3_def round_half_even_def)
  show ?thesis
    using boundary_wrap [of wrap_params 0] boundary_wrap [of example_params 1]
    by (simp add: w e t r)
qed

subsection \<open>Startup\<close>

text \<open>
  C5: when the three stellar model files exist and their wavelength columns are not all
  identical, the run ends with a ValueError, and the files are as they were: no exposure
  is processed and nothing is written.
\<close>

theorem wavelength_mismatch_aborts:
  assumes "BinnedData fs (teffStar P) = Some photModel"
    and "BinnedData fs (teffSpot P) = Some spotModel"
    and "BinnedData fs (teffFac P) = Some facModel"
    and "\<not> (map fst photModel = map fst spotModel \<and> map fst photModel = map fst facModel)"
  shows "\<exists>msg. main P fs = (fs, Some (ValueError msg))"
  using assms
  by (auto simp: main_def startup_def read_stellar_model_def wavelength_check_def
        series_all_eq_def list_all2_eq [symmetric] dest: list_all2_lengthD)

theorem wavelength_mismatch_aborts_witness:
  "\<exists>msg. main example_params mismatch_files = (mismatch_files, Some (ValueError msg))"
  using wavelength_mismatch_aborts
          [of mismatch_files example_params "[(1, 2), (2, 4)]" "[(1, 6), (3, 8)]"
              "[(1, 10), (2, 12)]"]
  by (simp add: mismatch_files_def example_params_def)

subsection \<open>The analyzer's unwrapped phase\<close>

lemma unwrap_while_eq:
  "unwrap_while prev cur = (if cur < prev then Inl UnitConversionError else Inr cur)"
  by (simp add: unwrap_while.simps quantity_iadd_def)

lemma ball_upt_first:
  "m < k \<Longrightarrow> (\<forall>i\<in>{m..<k}. Q i) \<longleftrightarrow> Q m \<and> (\<forall>i\<in>{Suc m..<k}. Q i)"
proof -
  assume "m < k"
  then have "{m..<k} = insert m {Suc m..<k}" by auto
  then show ?thesis by simp
qed

lemma unique_phase_loop_upt:
  "unique_phase_loop [m..<k] up =
     (if \<forall>i\<in>{m..<k}. up ! i \<le> up ! (i + 1) then Inr up else Inl UnitConversionError)"
proof (induction "k - m" arbitrary: m)
  case 0
  then show ?case by simp
next
  case (Suc d)
  then have lt: "m < k" by simp
  have IH: "unique_phase_loop [Suc m..<k] up =
     (if \<forall>i\<in>{Suc m..<k}. up ! i \<le> up ! (i + 1) then Inr up else Inl UnitConversionError)"
    using Suc by simp
  have step: "unique_phase_loop [m..<k] up =
     (if up ! (m + 1) < up ! m then Inl UnitConversionError
      else unique_phase_loop [Suc m..<k] up)"
    using lt by (simp add: upt_conv_Cons unwrap_while_eq)
  show ?case
    unfolding step IH ball_upt_first [OF lt] by auto
qed

lemma init_unique_phase_eq:
  "init_unique_phase p =
     (if \<forall>i\<in>{0..<length p - 1}. p ! i \<le> p ! (i + 1) then Inr p
      else Inl UnitConversionError)"
  by (simp only: init_unique_phase_def unique_phase_loop_upt)

text \<open>
  C3: the claim says that the raw phases 350, 10, 20 are unwrapped to 350, 370, 380. The
  loop adds \<open>360*u.deg_C\<close>, degrees Celsius, to a phase in degrees of angle, which raises
  when the first decreasing step is met: at these phases the construction fails with
  UnitConversionError and no sequence is produced. By \<open>init_unique_phase_eq\<close> only a
  sequence that never decreases gets through, unchanged.
\<close>

theorem unique_phase_350_10_20:
  "init_unique_phase [350, 10, 20] = Inl UnitConversionError"
  by (simp add: init_unique_phase_def upt_conv_Cons unwrap_while.simps quantity_iadd_def)


subsection \<open>combine\<close>

lemma py_slice_prefix: "N \<le> length xs \<Longrightarrow> py_slice xs (0, int N) = take N xs"
  by (simp add: py_slice_def slice_len_def clamp_index_def min_def)

lemma slice_len_prefix: "N \<le> n \<Longrightarrow> slice_len n (0, int N) = N"
  by (simp add: slice_len_def clamp_index_def min_def)

text \<open>
  C4: for a dataset of at least \<open>N \<ge> 1\<close> exposures, \<open>combine\<close> with the source
  \<open>noise\<close> and the images \<open>(0, N)\<close> returns, for each wavelength bin, the square root of
  the sum of the squared noise values of the exposures \<open>0..N-1\<close> divided by \<open>N\<^sup>2\<close>,
  which is the square root of the sum divided by \<open>N\<close>; neither the noise flag nor the
  random draws change the result.
\<close>

theorem combine_noise:
  assumes "1 \<le> N" and "N \<le> N_images a"
    and "\<forall>row\<in>set (noise a). length row = N_images a"
  shows "combine a ''noise'' (0, int N) with_noise z =
           Inr (map (\<lambda>row. sqrt (sum_list (map (\<lambda>x. x ^ 2) (take N row)) / (real N) ^ 2))
                  (noise a))
         \<and> combine a ''noise'' (0, int N) with_noise z =
           Inr (map (\<lambda>row. sqrt (sum_list (map (\<lambda>x. x ^ 2) (take N row))) / real N)
                  (noise a))
         \<and> combine a ''noise'' (0, int N) with_noise z =
           combine a ''noise'' (0, int N) (\<not> with_noise) z'"
proof -
  have rows: "\<And>row. row \<in> set (noise a) \<Longrightarrow> py_slice row (0, int N) = take N row"
    using assms by (simp add: py_slice_prefix)
  have "combine a ''noise'' (0, int N) b y =
           Inr (map (\<lambda>row. sqrt (sum_list (map (\<lambda>x. x ^ 2) (take N row)) / (real N) ^ 2))
                  (noise a))" for b y
    using assms(2) by (simp add: combine_def Let_def slice_len_prefix rows o_def cong: map_cong)
  moreover have "sqrt (s / (real N) ^ 2) = sqrt s / real N" for s
    by (simp add: real_sqrt_divide)
  ultimately show ?thesis by simp
qed

lemma sqrt_25: "sqrt 25 = 5"
  using real_sqrt_unique [of 5 25] by simp

lemma sqrt_100: "sqrt 100 = 10"
  using real_sqrt_unique [of 10 100] by simp

theorem combine_noise_witness:
  "1 \<le> (2::nat) \<and> 2 \<le> N_images example_analyzer
   \<and> map length (noise example_analyzer) = [N_images example_analyzer, N_images example_analyzer]
   \<and> combine example_analyzer ''noise'' (0, 2) True (\<lambda>r c. 1) = Inr [5 / 2, 5]
   \<and> combine example_analyzer ''noise'' (0, 2) False (\<lambda>r c. 0) = Inr [5 / 2, 5]"
proof -
  have h: "1 \<le> (2::nat)" "2 \<le> N_images example_analyzer"
    "\<forall>row\<in>set (noise example_analyzer). length row = N_images example_analyzer"
    by (simp_all add: example_analyzer_def)
  have "combine example_analyzer ''noise'' (0, int 2) b z =
          Inr (map (\<lambda>row. sqrt (sum_list (map (\<lambda>x. x ^ 2) (take 2 row))) / real 2)
                 (noise example_analyzer))" for b z
    using combine_noise [OF h, of b z z] by blast
  then have "combine example_analyzer ''noise'' (0, 2) b z = Inr [5 / 2, 5]" for b z
    by (simp add: example_analyzer_def sqrt_25 sqrt_100)
  with h show ?thesis by (simp add: example_analyzer_def)
qed

subsection \<open>lightcurve\<close>

text \<open>
  C7: for each of the five source arrays and each spectral bin \<open>k\<close> whose flux at
  exposure 0 is not zero, the light curve of the bin normalised to exposure 0, without
  noise, is the unitless series of the values divided by the value at exposure 0, and its
  entry at exposure 0 is 1.
\<close>

theorem lightcurve_normalized_to_first:
  assumes "source_array a source = Inr arr"
    and "k < length arr" and "arr ! k \<noteq> []" and "arr ! k ! 0 \<noteq> 0"
  shows "\<exists>ys. lightcurve a source (Pixel (int k)) (NormInt 0) False z = Inr (Unitless ys)
           \<and> ys = map (\<lambda>v. v / arr ! k ! 0) (arr ! k)
           \<and> ys ! 0 = 1"
  using assms
  by (simp add: lightcurve_def select_pixel_def py_index_def normalize_curve_def
        to_float_ratio_def Let_def)

theorem lightcurve_normalized_to_first_witness:
  "\<exists>ys. lightcurve example_analyzer ''star'' (Pixel 1) (NormInt 0) False (\<lambda>r c. 0)
           = Inr (Unitless ys)
         \<and> ys = [1, 2] \<and> ys ! 0 = 1"
  using lightcurve_normalized_to_first
          [of example_analyzer "''star''" "[[2, 4], [5, 10]]" 1 "\<lambda>r c. 0"]
  by (simp add: example_analyzer_def source_array_def)

subsection \<open>The header\<close>

text \<open>
  C6: the claim says that a header can be constructed without a seed, the seed being
  unset then. The parameter \<open>seed\<close> of \<open>Header.__init__\<close> has no default, although the
  docstring announces \<open>default=None\<close>: a call that supplies everything but the seed
  raises TypeError. Only the factory \<open>_from_dict\<close> accepts a mapping without seed
  (\<open>Header_from_dict_seed\<close>), because it always passes the argument.
\<close>

theorem Header_without_seed:
  "Header_init \<lparr>arg_data_path = Some p, arg_teff_min = Some lo, arg_teff_max = Some hi,
      arg_seed = None, arg_desc = d\<rparr> = Inl TypeError"
  by (simp add: Header_init_def)


lemma Header_from_dict_seed:
  assumes "d ''data_path'' = Some v1" and "Path v1 = Inr p"
    and "d ''teff_min'' = Some v2" and "Quantity v2 = Inr lo"
    and "d ''teff_max'' = Some v3" and "Quantity v3 = Inr hi"
  shows "d ''seed'' = None \<or> d ''seed'' = Some YNone \<Longrightarrow>
           \<exists>h. Header_from_dict Path Quantity int_of_str str_of_real d = Inr h \<and> seed h = None"
    and "d ''seed'' = Some (YInt n) \<Longrightarrow>
           \<exists>h. Header_from_dict Path Quantity int_of_str str_of_real d = Inr h \<and> seed h = Some n"
  using assms
  by (auto simp: Header_from_dict_def dict_item_def dict_get_default_def py_int_def
        Header_init_def Let_def)

subsection \<open>The columns an exposure writes\<close>

lemma and_then_eq_Inr:
  "and_then m f = Inr y \<longleftrightarrow> (\<exists>x. m = Inr x \<and> f x = Inr y)"
  by (cases m) simp_all

lemma and_then_InrE:
  assumes "and_then m f = Inr y"
  obtains x where "m = Inr x" and "f x = Inr y"
  using assms by (auto simp: and_then_eq_Inr)

lemma combined_spectrum_other_columns:
  assumes "calculate_combined_spectrum df a b = Inr df'"
    and "c \<noteq> ''sumflux''" and "c \<noteq> ''sumfluxTowardsPlanet''"
  shows "column df' c = column df c"
proof -
  from assms(1) obtain c1 c2 where
    "df' = set_column (set_column df ''sumflux'' c1) ''sumfluxTowardsPlanet'' c2"
    unfolding calculate_combined_spectrum_def Let_def
    by (elim and_then_InrE) auto
  with assms(2,3) show ?thesis
    by (simp add: column_set_column)
qed

lemma planet_flux_other_columns:
  assumes "calculate_planet_flux df r t = Inr df'"
    and "c \<noteq> ''planetReflection''" and "c \<noteq> ''planetThermal''"
  shows "column df' c = column df c"
proof -
  from assms(1) obtain c1 c2 where
    "df' = set_column (set_column df ''planetReflection'' c1) ''planetThermal'' c2"
    unfolding calculate_planet_flux_def Let_def
    by (simp split: if_splits) (elim and_then_InrE, auto split: if_splits)
  with assms(2,3) show ?thesis
    by (simp add: column_set_column)
qed

lemma exposure_other_columns:
  assumes "exposure P cov fs df i = Inr df'"
    and "c \<notin> {''sumflux'', ''sumfluxTowardsPlanet'', ''planetReflection'', ''planetThermal''}"
  shows "column df' c = column df c"
proof -
  from assms(1) obtain df1 r t a b where
    "calculate_combined_spectrum df a b = Inr df1" and "calculate_planet_flux df1 r t = Inr df'"
    unfolding exposure_def Let_def by (elim and_then_InrE) auto
  with assms(2) show ?thesis
    by (simp add: combined_spectrum_other_columns planet_flux_other_columns)
qed

subsection \<open>The run as a function of its input files\<close>

lemma exposure_inputs:
  assumes "PSGCombinedSpectra fs' = PSGCombinedSpectra fs"
    and "PSGThermalSpectra fs' = PSGThermalSpectra fs"
  shows "exposure P cov fs' df i = exposure P cov fs df i"
  using assms by (simp add: exposure_def read_reflection_def read_thermal_def Let_def)

lemma map_add_twice: "(m ++ w) ++ w = m ++ w"
  by (simp add: map_add_def fun_eq_iff split: option.split)

lemma exposures_writes:
  "\<exists>W e. \<forall>fs'. PSGCombinedSpectra fs' = PSGCombinedSpectra (fs::files)
              \<and> PSGThermalSpectra fs' = PSGThermalSpectra fs
        \<longrightarrow> exposures P cov idxs df fs' =
              (fs'\<lparr>AllModelSpectraValues := AllModelSpectraValues fs' ++ W\<rparr>, e)"
proof (induction idxs arbitrary: df fs)
  case Nil
  have "\<forall>fs'. exposures P cov [] df fs' =
          (fs'\<lparr>AllModelSpectraValues := AllModelSpectraValues fs' ++ Map.empty\<rparr>, None)"
    by simp
  then show ?case by blast
next
  case (Cons i rest)
  show ?case
  proof (cases "exposure P cov fs df i")
    case (Inl e)
    have "exposures P cov (i # rest) df fs' =
              (fs'\<lparr>AllModelSpectraValues := AllModelSpectraValues fs' ++ Map.empty\<rparr>, Some e)"
      if "PSGCombinedSpectra fs' = PSGCombinedSpectra fs"
        and "PSGThermalSpectra fs' = PSGThermalSpectra fs" for fs'
    proof -
      have "exposure P cov fs' df i = Inl e"
        using exposure_inputs [OF that] Inl by simp
      then show ?thesis by simp
    qed
    then show ?thesis by blast
  next
    case (Inr df1)
    from Cons.IH [of "to_csv fs (starName P) i df1" df1] obtain W e where
      IH: "\<And>fs'. PSGCombinedSpectra fs' = PSGCombinedSpectra fs \<Longrightarrow>
              PSGThermalSpectra fs' = PSGThermalSpectra fs \<Longrightarrow>
              exposures P cov rest df1 fs' =
              (fs'\<lparr>AllModelSpectraValues := AllModelSpectraValues fs' ++ W\<rparr>, e)"
      by (auto simp: to_csv_def)
    have "exposures P cov (i # rest) df fs' =
              (fs'\<lparr>AllModelSpectraValues :=
                    AllModelSpectraValues fs' ++ ([(starName P, i) \<mapsto> df1] ++ W)\<rparr>, e)"
      if "PSGCombinedSpectra fs' = PSGCombinedSpectra fs"
        and "PSGThermalSpectra fs' = PSGThermalSpectra fs" for fs'
    proof -
      have "exposure P cov fs' df i = Inr df1"
        using exposure_inputs [OF that] Inr by simp
      moreover have "exposures P cov rest df1 (to_csv fs' (starName P) i df1) =
          ((to_csv fs' (starName P) i df1)\<lparr>AllModelSpectraValues :=
               AllModelSpectraValues (to_csv fs' (starName P) i df1) ++ W\<rparr>, e)"
        using that by (intro IH) (simp_all add: to_csv_def)
      ultimately show ?thesis
        by (simp add: to_csv_def)
    qed
    then show ?thesis by blast
  qed
qed

lemma startup_inputs:
  assumes "BinnedData fs' = BinnedData fs"
    and "surfaceCoveragePercentageDict fs' = surfaceCoveragePercentageDict fs"
  shows "startup P fs' = startup P fs"
  using assms by (simp add: startup_def read_stellar_model_def read_coverage_def)

lemma main_writes:
  "\<exists>W e. \<forall>fs'. BinnedData fs' = BinnedData (fs::files)
              \<and> surfaceCoveragePercentageDict fs' = surfaceCoveragePercentageDict fs
              \<and> PSGCombinedSpectra fs' = PSGCombinedSpectra fs
              \<and> PSGThermalSpectra fs' = PSGThermalSpectra fs
        \<longrightarrow> main P fs' =
              (fs'\<lparr>AllModelSpectraValues := AllModelSpectraValues fs' ++ W\<rparr>, e)"
proof (cases "startup P fs")
  case (Inl e)
  have "main P fs' = (fs'\<lparr>AllModelSpectraValues := AllModelSpectraValues fs' ++ Map.empty\<rparr>, Some e)"
    if "BinnedData fs' = BinnedData fs"
      and "surfaceCoveragePercentageDict fs' = surfaceCoveragePercentageDict fs" for fs'
    using startup_inputs [OF that] Inl by (simp add: main_def)
  then show ?thesis by blast
next
  case (Inr r)
  obtain df cov where r: "r = (df, cov)" by (cases r)
  obtain W e where
    W: "\<And>fs'. PSGCombinedSpectra fs' = PSGCombinedSpectra fs \<Longrightarrow>
              PSGThermalSpectra fs' = PSGThermalSpectra fs \<Longrightarrow>
              exposures P cov [0..<nat (total_images P)] df fs' =
              (fs'\<lparr>AllModelSpectraValues := AllModelSpectraValues fs' ++ W\<rparr>, e)"
    using exposures_writes [of fs P cov "[0..<nat (total_images P)]" df] by blast
  have "main P fs' = (fs'\<lparr>AllModelSpectraValues := AllModelSpectraValues fs' ++ W\<rparr>, e)"
    if "BinnedData fs' = BinnedData fs"
      and "surfaceCoveragePercentageDict fs' = surfaceCoveragePercentageDict fs"
      and "PSGCombinedSpectra fs' = PSGCombinedSpectra fs"
      and "PSGThermalSpectra fs' = PSGThermalSpectra fs" for fs'
    using startup_inputs [OF that(1,2)] Inr r W [OF that(3,4)] by (simp add: main_def)
  then show ?thesis by blast
qed

text \<open>
  C9: the script has no source of randomness: what it writes and how it ends are a
  function of the parameters and of the input files. Two runs with the same parameters on
  files that agree in the stellar models, the coverage table and the external tool's
  spectra write the same output tables \<open>W\<close> and end in the same way \<open>e\<close>, whatever
  output files were there before. In particular a second run on the files left by the
  first, nothing deleted in between, leaves every file as it is.
\<close>

theorem main_deterministic:
  assumes "BinnedData fs2 = BinnedData fs1"
    and "surfaceCoveragePercentageDict fs2 = surfaceCoveragePercentageDict fs1"
    and "PSGCombinedSpectra fs2 = PSGCombinedSpectra fs1"
    and "PSGThermalSpectra fs2 = PSGThermalSpectra fs1"
  shows "(\<exists>W e. main P fs1 = (fs1\<lparr>AllModelSpectraValues := AllModelSpectraValues fs1 ++ W\<rparr>, e)
              \<and> main P fs2 = (fs2\<lparr>AllModelSpectraValues := AllModelSpectraValues fs2 ++ W\<rparr>, e))
         \<and> main P (fst (main P fs1)) = main P fs1"
proof -
  obtain W e where
    W: "\<And>fs'. BinnedData fs' = BinnedData fs1 \<Longrightarrow>
              surfaceCoveragePercentageDict fs' = surfaceCoveragePercentageDict fs1 \<Longrightarrow>
              PSGCombinedSpectra fs' = PSGCombinedSpectra fs1 \<Longrightarrow>
              PSGThermalSpectra fs' = PSGThermalSpectra fs1 \<Longrightarrow>
              main P fs' = (fs'\<lparr>AllModelSpectraValues := AllModelSpectraValues fs' ++ W\<rparr>, e)"
    using main_writes [of fs1 P] by blast
  let ?out = "fs1\<lparr>AllModelSpectraValues := AllModelSpectraValues fs1 ++ W\<rparr>"
  have first: "main P fs1 = (?out, e)"
    by (rule W) simp_all
  have second: "main P fs2 = (fs2\<lparr>AllModelSpectraValues := AllModelSpectraValues fs2 ++ W\<rparr>, e)"
    using assms by (rule W)
  have "main P ?out = (?out\<lparr>AllModelSpectraValues := AllModelSpectraValues ?out ++ W\<rparr>, e)"
    by (rule W) simp_all
  then have "main P ?out = (?out, e)"
    by (simp add: map_add_twice)
  with first second show ?thesis by auto
qed

subsection \<open>The example run\<close>

lemma all_less_two: "(\<forall>i<2::nat. Q i) \<longleftrightarrow> Q 0 \<and> Q 1"
  by (auto simp: less_2_cases_iff)


lemma example_startup:
  "startup example_params example_files = Inr (example_base, example_coverage)"
  by (simp add: startup_def read_stellar_model_def read_coverage_def wavelength_check_def
        series_all_eq_def base_table_def load_coverage_def conversion_def series_scale_def
        example_params_def example_files_def example_base_def example_coverage_def)

lemma py_round3_int [simp]: "py_round3 (of_int n) = of_int n"
  by (simp add: py_round3_def round_half_even_def)

lemma example_phases0:
  "phases example_params 0 = \<lparr>planetPhase = 182, starPhase = 0, starPhaseFacingPlanet = 0\<rparr>"
  by (simp add: phases_def Let_def example_raw_phases raw_starPhaseFacingPlanet_def
        py_mod_360_360)

lemma example_phases1:
  "phases example_params (Suc 0) =
     \<lparr>planetPhase = 186, starPhase = 10, starPhaseFacingPlanet = 355\<rparr>"
  by (simp add: phases_def Let_def example_raw_phases raw_starPhaseFacingPlanet_def
        py_mod_small) (simp add: example_params_def)

lemma py_round3_numeral [simp]: "py_round3 (numeral n) = numeral n"
  using py_round3_int [of "numeral n"] by simp

lemma py_round3_0 [simp]: "py_round3 0 = 0"
  using py_round3_int [of 0] by simp

lemma example_starName: "starName example_params = ''star''"
  by (simp add: example_params_def)

lemma example_exposure0:
  "exposure example_params example_coverage example_files example_base 0 = Inr example_phase0"
  by (simp add: exposure_def example_phases0 psg_file_name_def format_3f_182
        read_reflection_def read_thermal_def tempPhase_def tempPhaseFacingPlanet_def
        coverage_at_def py_mod_small calculate_combined_spectrum_def dict_get_def
        column_def set_column_def weighted_sum_def series_add_def series_scale_def
        calculate_planet_flux_def refl_planet_def refl_stellar_def thermal_planet_def
        example_starName example_files_def example_base_def example_coverage_def
        example_phase0_def Let_def)

lemma example_exposure1:
  "exposure example_params example_coverage example_files example_phase0 (Suc 0) =
     Inr example_phase1"
  by (simp add: exposure_def example_phases1 psg_file_name_def format_3f_186
        read_reflection_def read_thermal_def tempPhase_def tempPhaseFacingPlanet_def
        coverage_at_def py_mod_small calculate_combined_spectrum_def dict_get_def
        column_def set_column_def weighted_sum_def series_add_def series_scale_def
        calculate_planet_flux_def refl_planet_def refl_stellar_def thermal_planet_def
        example_starName example_files_def example_base_def example_coverage_def
        example_phase0_def example_phase1_def Let_def)

theorem phase_substitution_witness:
  "raw_planetPhase example_params 0 = 180
   \<and> psg_file_name (planetPhase (phases example_params 0)) = ''phase182.000.txt''
   \<and> exposure example_params example_coverage only_180_files example_base 0
       = Inl (FileNotFoundError ''star/Data/PSGCombinedSpectra/phase182.000.txt'')
   \<and> exposure example_params example_coverage example_files example_base 0
       = Inr example_phase0
   \<and> raw_planetPhase example_params 1 = 185
   \<and> psg_file_name (planetPhase (phases example_params 1)) = ''phase186.000.txt''
   \<and> exposure example_params example_coverage only_185_thermal_files example_phase0 1
       = Inl (FileNotFoundError ''star/Data/PSGThermalSpectra/phase186.000.txt'')
   \<and> exposure example_params example_coverage example_files example_phase0 1
       = Inr example_phase1
   \<and> exposure example_params example_coverage stale_files example_base 0
       = exposure example_params example_coverage example_files example_base 0
   \<and> starPhaseFacingPlanet (phases example_params 0) = 0
   \<and> starPhaseFacingPlanet (phases example_params 1) = 355"
proof -
  note r0 = example_raw_phases(1)
  note r1 = example_raw_phases(2)
  note at0 = phase_substitution [of example_params 0, THEN conjunct1, rule_format, OF r0]
  note at1 = phase_substitution
               [of example_params "Suc 0", THEN conjunct2, THEN conjunct1, rule_format, OF r1]
  note rest0 = phase_substitution
                 [of example_params 0, THEN conjunct2, THEN conjunct2]
  note rest1 = phase_substitution
                 [of example_params "Suc 0", THEN conjunct2, THEN conjunct2]
  have t: "total_images example_params = 2"
    by (simp add: example_params_def)
  have name0: "psg_file_name (planetPhase (phases example_params 0)) = ''phase182.000.txt''"
    using at0 [of example_coverage example_files example_base] by blast
  have name1: "psg_file_name (planetPhase (phases example_params (Suc 0))) = ''phase186.000.txt''"
    using at1 [of example_coverage example_files example_base] by blast
  have missing0: "exposure example_params example_coverage only_180_files example_base 0
       = Inl (FileNotFoundError ''star/Data/PSGCombinedSpectra/phase182.000.txt'')"
    using at0 [of example_coverage only_180_files example_base, THEN conjunct2, THEN conjunct2]
    by (simp add: only_180_files_def example_starName)
  have missing1: "exposure example_params example_coverage only_185_thermal_files
         example_phase0 (Suc 0)
       = Inl (FileNotFoundError ''star/Data/PSGThermalSpectra/phase186.000.txt'')"
    using at1 [of example_coverage only_185_thermal_files example_phase0,
               THEN conjunct2, THEN conjunct2]
    by (simp add: only_185_thermal_files_def example_files_def example_starName)
  have read0: "exposure example_params example_coverage example_files example_base 0
       = Inr example_phase0"
    using at0 [of example_coverage example_files example_base, THEN conjunct2, THEN conjunct2]
    by (simp add: example_phases0 tempPhase_def tempPhaseFacingPlanet_def
        coverage_at_def py_mod_small calculate_combined_spectrum_def dict_get_def
        column_def set_column_def weighted_sum_def series_add_def series_scale_def
        calculate_planet_flux_def refl_planet_def refl_stellar_def thermal_planet_def
        example_starName example_files_def example_base_def example_coverage_def
        example_phase0_def Let_def)
  have read1: "exposure example_params example_coverage example_files example_phase0 (Suc 0)
       = Inr example_phase1"
    using at1 [of example_coverage example_files example_phase0, THEN conjunct2, THEN conjunct2]
    by (simp add: example_phases1 tempPhase_def tempPhaseFacingPlanet_def
        coverage_at_def py_mod_small calculate_combined_spectrum_def dict_get_def
        column_def set_column_def weighted_sum_def series_add_def series_scale_def
        calculate_planet_flux_def refl_planet_def refl_stellar_def thermal_planet_def
        example_starName example_files_def example_base_def example_coverage_def
        example_phase0_def example_phase1_def Let_def)
  have same: "PSGCombinedSpectra stale_files = PSGCombinedSpectra example_files"
    "PSGThermalSpectra stale_files = PSGThermalSpectra example_files"
    by (simp_all add: stale_files_def)
  have frame: "exposure example_params example_coverage stale_files example_base 0
       = exposure example_params example_coverage example_files example_base 0"
    by (rule rest0 [THEN conjunct1, rule_format]) (simp add: same)
  have sfp0: "starPhaseFacingPlanet (phases example_params 0) = 0"
    using rest0 [THEN conjunct2, THEN conjunct2]
    by (simp add: example_raw_phases t py_mod_360_360)
  have sfp1: "starPhaseFacingPlanet (phases example_params (Suc 0)) = 355"
    using rest1 [THEN conjunct2, THEN conjunct2]
    by (simp add: example_raw_phases t py_mod_small)
  show ?thesis
    unfolding One_nat_def
    by (intro conjI r0 r1 name0 name1 missing0 missing1 read0 read1 frame sfp0 sfp1)
qed

lemma example_main:
  "main example_params example_files =
     (example_files\<lparr>AllModelSpectraValues :=
         [(''star'', 0) \<mapsto> example_phase0, (''star'', Suc 0) \<mapsto> example_phase1]\<rparr>, None)"
proof -
  have "nat (total_images example_params) = Suc (Suc 0)"
    by (simp add: example_params_def)
  then have idxs: "[0..<nat (total_images example_params)] = [0, Suc 0]"
    by (simp add: upt_conv_Cons)
  have second: "exposure example_params example_coverage
      (to_csv example_files ''star'' 0 example_phase0) example_phase0 (Suc 0) =
     Inr example_phase1"
    using exposure_inputs [of "to_csv example_files ''star'' 0 example_phase0" example_files]
      example_exposure1 by (simp add: to_csv_def)
  have "main example_params example_files =
     (to_csv (to_csv example_files ''star'' 0 example_phase0) ''star'' (Suc 0) example_phase1,
      None)"
    by (simp add: main_def example_startup idxs example_exposure0 second example_starName)
  moreover have "AllModelSpectraValues example_files = Map.empty"
    by (simp add: example_files_def)
  ultimately show ?thesis
    by (simp add: to_csv_def)
qed

theorem main_deterministic_witness:
  "main example_params example_files =
     (example_files\<lparr>AllModelSpectraValues :=
         [(''star'', 0) \<mapsto> example_phase0, (''star'', Suc 0) \<mapsto> example_phase1]\<rparr>, None)
   \<and> main example_params stale_files =
     (example_files\<lparr>AllModelSpectraValues :=
         [(''other'', 7) \<mapsto> example_base,
          (''star'', 0) \<mapsto> example_phase0, (''star'', Suc 0) \<mapsto> example_phase1]\<rparr>, None)
   \<and> main example_params (fst (main example_params example_files)) =
       main example_params example_files"
proof -
  have inputs: "BinnedData stale_files = BinnedData example_files"
    "surfaceCoveragePercentageDict stale_files = surfaceCoveragePercentageDict example_files"
    "PSGCombinedSpectra stale_files = PSGCombinedSpectra example_files"
    "PSGThermalSpectra stale_files = PSGThermalSpectra example_files"
    by (simp_all add: stale_files_def)
  from main_deterministic [OF inputs, of example_params] obtain W e where
    W: "main example_params example_files =
          (example_files\<lparr>AllModelSpectraValues := AllModelSpectraValues example_files ++ W\<rparr>, e)"
       "main example_params stale_files =
          (stale_files\<lparr>AllModelSpectraValues := AllModelSpectraValues stale_files ++ W\<rparr>, e)"
    and idem: "main example_params (fst (main example_params example_files)) =
       main example_params example_files"
    by blast
  have empty: "AllModelSpectraValues example_files = Map.empty"
    by (simp add: example_files_def)
  from W(1) have We: "W = [(''star'', 0) \<mapsto> example_phase0, (''star'', Suc 0) \<mapsto> example_phase1]"
    "e = None"
    unfolding example_main using empty
    by (auto dest!: arg_cong [where f = AllModelSpectraValues])
  have "main example_params stale_files =
     (example_files\<lparr>AllModelSpectraValues :=
         [(''other'', 7) \<mapsto> example_base,
          (''star'', 0) \<mapsto> example_phase0, (''star'', Suc 0) \<mapsto> example_phase1]\<rparr>, None)"
    unfolding W(2) We by (simp add: stale_files_def fun_eq_iff map_add_def)
  with idem show ?thesis
    by (simp add: example_main)
qed

subsection \<open>The static columns\<close>

lemma exposures_static:
  "exposures P cov [m..<k] df fs = (fs', err) \<Longrightarrow>
   \<exists>n. m \<le> n \<and> n \<le> max m k \<and> (err = None \<longrightarrow> n = max m k)
     \<and> (\<forall>i. m \<le> i \<and> i < n \<longrightarrow>
           (\<exists>df'. AllModelSpectraValues fs' (starName P, i) = Some df'
              \<and> (\<forall>c. c \<notin> derived_columns \<longrightarrow> column df' c = column df c)))
     \<and> (\<forall>key. (\<forall>i. m \<le> i \<and> i < n \<longrightarrow> key \<noteq> (starName P, i))
           \<longrightarrow> AllModelSpectraValues fs' key = AllModelSpectraValues fs key)"
proof (induction "k - m" arbitrary: m df fs)
  case 0
  then have "[m..<k] = []" and "max m k = m" by auto
  with "0.prems" show ?case by (intro exI [of _ m]) auto
next
  case (Suc d)
  then have lt: "m < k" by simp
  then have upt: "[m..<k] = m # [Suc m..<k]" by (simp add: upt_conv_Cons)
  show ?case
  proof (cases "exposure P cov fs df m")
    case (Inl e)
    with Suc.prems upt have "fs' = fs" by simp
    moreover have "err \<noteq> None" using Suc.prems upt Inl by auto
    ultimately show ?thesis by (intro exI [of _ m]) auto
  next
    case (Inr df1)
    let ?fs1 = "to_csv fs (starName P) m df1"
    have run: "exposures P cov [Suc m..<k] df1 ?fs1 = (fs', err)"
      using Suc.prems upt Inr by simp
    have "d = k - Suc m" using Suc.hyps(2) by simp
    from Suc.hyps(1) [OF this run] obtain n where
      n: "Suc m \<le> n" "n \<le> max (Suc m) k" "err = None \<longrightarrow> n = max (Suc m) k"
      and written: "\<And>i. Suc m \<le> i \<Longrightarrow> i < n \<Longrightarrow>
           \<exists>df'. AllModelSpectraValues fs' (starName P, i) = Some df'
              \<and> (\<forall>c. c \<notin> derived_columns \<longrightarrow> column df' c = column df1 c)"
      and others: "\<And>key. (\<forall>i. Suc m \<le> i \<and> i < n \<longrightarrow> key \<noteq> (starName P, i))
           \<Longrightarrow> AllModelSpectraValues fs' key = AllModelSpectraValues ?fs1 key"
      by blast
    have same: "column df1 c = column df c" if "c \<notin> derived_columns" for c
      using exposure_other_columns [OF Inr] that by (simp add: derived_columns_def)
    have first: "AllModelSpectraValues fs' (starName P, m) = Some df1"
      using others [of "(starName P, m)"] by (simp add: to_csv_def)
    have "\<exists>df'. AllModelSpectraValues fs' (starName P, i) = Some df'
              \<and> (\<forall>c. c \<notin> derived_columns \<longrightarrow> column df' c = column df c)"
      if "m \<le> i" and "i < n" for i
    proof (cases "i = m")
      case True
      with first same show ?thesis by simp
    next
      case False
      with that written [of i] same show ?thesis by force
    qed
    moreover have "AllModelSpectraValues fs' key = AllModelSpectraValues fs key"
      if "\<forall>i. m \<le> i \<and> i < n \<longrightarrow> key \<noteq> (starName P, i)" for key
    proof -
      have "key \<noteq> (starName P, m)" using that n(1) by auto
      moreover have "\<forall>i. Suc m \<le> i \<and> i < n \<longrightarrow> key \<noteq> (starName P, i)"
        using that by auto
      ultimately show ?thesis using others [of key] by (simp add: to_csv_def)
    qed
    moreover have "m \<le> n" "n \<le> max m k" "err = None \<longrightarrow> n = max m k"
      using n lt by auto
    ultimately show ?thesis by blast
  qed
qed

lemma startup_table:
  assumes "startup P fs = Inr (df0, cov)"
  shows "\<exists>photModel spotModel facModel.
           BinnedData fs (teffStar P) = Some photModel
         \<and> BinnedData fs (teffSpot P) = Some spotModel
         \<and> BinnedData fs (teffFac P) = Some facModel
         \<and> map fst spotModel = map fst photModel
         \<and> map fst facModel = map fst photModel
         \<and> df0 = base_table P photModel spotModel facModel"
proof -
  from assms obtain ph sp fa u where
    "read_stellar_model fs (teffStar P) = Inr ph"
    "read_stellar_model fs (teffSpot P) = Inr sp"
    "read_stellar_model fs (teffFac P) = Inr fa"
    "wavelength_check (map fst ph) (map fst sp) (map fst fa) = Inr u"
    "df0 = base_table P ph sp fa"
    unfolding startup_def by (elim and_then_InrE) auto
  then show ?thesis
    by (auto simp: read_stellar_model_def wavelength_check_def series_all_eq_def
          and_then_eq_Inr list_all2_eq [symmetric] split: option.splits if_splits)
qed

text \<open>
  C10: after a run whose startup succeeds, there is a number \<open>n\<close> of exposures written
  (all of them when the run ends without error) such that every file
  \<open>phase{i}.csv\<close> with \<open>i < n\<close> holds the wavelength grid and the three flux columns
  exactly as startup set them, rescaled once by the conversion factor, whatever the
  exposure; every column other than \<open>sumflux\<close>, \<open>sumfluxTowardsPlanet\<close>,
  \<open>planetReflection\<close> and \<open>planetThermal\<close> is as in the startup table; and no other
  file is touched.
\<close>

theorem static_columns_persisted:
  assumes "startup P fs = Inr (df0, cov)" and "main P fs = (fs', err)"
  shows "\<exists>n photModel spotModel facModel.
           n \<le> nat (total_images P) \<and> (err = None \<longrightarrow> n = nat (total_images P))
         \<and> BinnedData fs (teffStar P) = Some photModel
         \<and> BinnedData fs (teffSpot P) = Some spotModel
         \<and> BinnedData fs (teffFac P) = Some facModel
         \<and> (\<forall>i<n. \<exists>df. AllModelSpectraValues fs' (starName P, i) = Some df
                \<and> column df ''wavelength'' = Inr (map fst photModel)
                \<and> column df ''photflux'' = Inr (map (\<lambda>x. x * conversion P) (map snd photModel))
                \<and> column df ''spotflux'' = Inr (map (\<lambda>x. x * conversion P) (map snd spotModel))
                \<and> column df ''facflux'' = Inr (map (\<lambda>x. x * conversion P) (map snd facModel))
                \<and> (\<forall>c. c \<notin> {''sumflux'', ''sumfluxTowardsPlanet'', ''planetReflection'',
                             ''planetThermal''} \<longrightarrow> column df c = column df0 c))
         \<and> (\<forall>key. (\<forall>i<n. key \<noteq> (starName P, i))
                \<longrightarrow> AllModelSpectraValues fs' key = AllModelSpectraValues fs key)"
proof -
  from startup_table [OF assms(1)] obtain ph sp fa where
    files: "BinnedData fs (teffStar P) = Some ph" "BinnedData fs (teffSpot P) = Some sp"
      "BinnedData fs (teffFac P) = Some fa"
    and df0: "df0 = base_table P ph sp fa"
    by blast
  have cols: "column df0 ''wavelength'' = Inr (map fst ph)"
    "column df0 ''photflux'' = Inr (map (\<lambda>x. x * conversion P) (map snd ph))"
    "column df0 ''spotflux'' = Inr (map (\<lambda>x. x * conversion P) (map snd sp))"
    "column df0 ''facflux'' = Inr (map (\<lambda>x. x * conversion P) (map snd fa))"
    by (simp_all add: df0 base_table_def column_def series_scale_def)
  have "exposures P cov [0..<nat (total_images P)] df0 fs = (fs', err)"
    using assms by (simp add: main_def)
  from exposures_static [OF this] have "\<exists>n. n \<le> nat (total_images P)
     \<and> (err = None \<longrightarrow> n = nat (total_images P))
     \<and> (\<forall>i. i < n \<longrightarrow>
           (\<exists>df'. AllModelSpectraValues fs' (starName P, i) = Some df'
              \<and> (\<forall>c. c \<notin> derived_columns \<longrightarrow> column df' c = column df0 c)))
     \<and> (\<forall>key. (\<forall>i. i < n \<longrightarrow> key \<noteq> (starName P, i))
           \<longrightarrow> AllModelSpectraValues fs' key = AllModelSpectraValues fs key)"
    by simp
  then obtain n where
    n: "n \<le> nat (total_images P)" "err = None \<longrightarrow> n = nat (total_images P)"
    and written: "\<And>i. i < n \<Longrightarrow>
           \<exists>df'. AllModelSpectraValues fs' (starName P, i) = Some df'
              \<and> (\<forall>c. c \<notin> derived_columns \<longrightarrow> column df' c = column df0 c)"
    and others: "\<And>key. (\<forall>i<n. key \<noteq> (starName P, i))
           \<Longrightarrow> AllModelSpectraValues fs' key = AllModelSpectraValues fs key"
    by blast
  have each: "\<exists>df. AllModelSpectraValues fs' (starName P, i) = Some df
                \<and> column df ''wavelength'' = Inr (map fst ph)
                \<and> column df ''photflux'' = Inr (map (\<lambda>x. x * conversion P) (map snd ph))
                \<and> column df ''spotflux'' = Inr (map (\<lambda>x. x * conversion P) (map snd sp))
                \<and> column df ''facflux'' = Inr (map (\<lambda>x. x * conversion P) (map snd fa))
                \<and> (\<forall>c. c \<notin> {''sumflux'', ''sumfluxTowardsPlanet'', ''planetReflection'',
                             ''planetThermal''} \<longrightarrow> column df c = column df0 c)"
    if "i < n" for i
  proof -
    from written [OF that] obtain df where
      df: "AllModelSpectraValues fs' (starName P, i) = Some df"
      "\<And>c. c \<notin> derived_columns \<Longrightarrow> column df c = column df0 c"
      by blast
    have "column df ''wavelength'' = column df0 ''wavelength''"
      "column df ''photflux'' = column df0 ''photflux''"
      "column df ''spotflux'' = column df0 ''spotflux''"
      "column df ''facflux'' = column df0 ''facflux''"
      by (simp_all add: df(2) derived_columns_def)
    moreover have "\<forall>c. c \<notin> {''sumflux'', ''sumfluxTowardsPlanet'', ''planetReflection'',
                             ''planetThermal''} \<longrightarrow> column df c = column df0 c"
      using df(2) unfolding derived_columns_def by (intro allI impI)
    ultimately show ?thesis
      using df(1) cols by (intro exI [of _ df]) simp
  qed
  show ?thesis
  proof (rule exI [of _ n], rule exI [of _ ph], rule exI [of _ sp], rule exI [of _ fa],
      intro conjI)
    show "n \<le> nat (total_images P)" by (rule n(1))
    show "err = None \<longrightarrow> n = nat (total_images P)" by (rule n(2))
    show "BinnedData fs (teffStar P) = Some ph" by (rule files(1))
    show "BinnedData fs (teffSpot P) = Some sp" by (rule files(2))
    show "BinnedData fs (teffFac P) = Some fa" by (rule files(3))
    show "\<forall>i<n. \<exists>df. AllModelSpectraValues fs' (starName P, i) = Some df
                \<and> column df ''wavelength'' = Inr (map fst ph)
                \<and> column df ''photflux'' = Inr (map (\<lambda>x. x * conversion P) (map snd ph))
                \<and> column df ''spotflux'' = Inr (map (\<lambda>x. x * conversion P) (map snd sp))
                \<and> column df ''facflux'' = Inr (map (\<lambda>x. x * conversion P) (map snd fa))
                \<and> (\<forall>c. c \<notin> {''sumflux'', ''sumfluxTowardsPlanet'', ''planetReflection'',
                             ''planetThermal''} \<longrightarrow> column df c = column df0 c)"
      using each by (intro allI impI)
    show "\<forall>key. (\<forall>i<n. key \<noteq> (starName P, i))
                \<longrightarrow> AllModelSpectraValues fs' key = AllModelSpectraValues fs key"
      using others by (intro allI impI)
  qed
qed

theorem static_columns_persisted_witness:
  "\<exists>df0 df1.
     AllModelSpectraValues (fst (main example_params example_files)) (''star'', 0) = Some df0
   \<and> AllModelSpectraValues (fst (main example_params example_files)) (''star'', 1) = Some df1
   \<and> column df0 ''wavelength'' = Inr [1, 2] \<and> column df1 ''wavelength'' = Inr [1, 2]
   \<and> column df0 ''photflux'' = Inr [2, 4] \<and> column df1 ''photflux'' = Inr [2, 4]
   \<and> column df0 ''spotflux'' = Inr [6, 8] \<and> column df1 ''spotflux'' = Inr [6, 8]
   \<and> column df0 ''facflux'' = Inr [10, 12] \<and> column df1 ''facflux'' = Inr [10, 12]"
proof -
  have conv: "conversion example_params = 1"
    by (simp add: conversion_def example_params_def)
  have models: "BinnedData example_files (teffStar example_params) = Some [(1, 2), (2, 4)]"
    "BinnedData example_files (teffSpot example_params) = Some [(1, 6), (2, 8)]"
    "BinnedData example_files (teffFac example_params) = Some [(1, 10), (2, 12)]"
    by (simp_all add: example_files_def example_params_def)
  have n: "nat (total_images example_params) = 2"
    by (simp add: example_params_def)
  from static_columns_persisted [OF example_startup example_main]
  show ?thesis
    by (simp add: conv models n example_starName example_main all_less_two)
qed

end
